theory Spec2Isabelle
  imports Complex_Main
begin

section \<open>QuadRay scene graph: flags, options, tags\<close>

text \<open>
  The update flags (\<open>RT_UPDATE_FLAG_*\<close>) and the optimisation bits (\<open>RT_OPTS_*\<close>) are
  single-bit masks combined with \<open>|\<close> and tested with \<open>&\<close> in object.cpp. A flag word
  is modelled as the set of the bits that are on: \<open>a | b\<close> is \<open>a \<union> b\<close>,
  \<open>a & RT_UPDATE_FLAG_X\<close> is \<open>a \<inter> {FLAG_X}\<close>, and \<open>a == 0\<close> is \<open>a = {}\<close>.
  An optimisation that is compiled out (\<open>RT_OPTS_X == 0\<close>) is a bit that is never on.
\<close>

datatype update_flag = FLAG_OBJ | FLAG_SRF | FLAG_ARR | FLAG_SCL | FLAG_ROT

type_synonym flags = "update_flag set"

datatype opt = OPTS_FSCALE | OPTS_TARRAY | OPTS_VARRAY | OPTS_ADJUST | OPTS_UPDATE

datatype tag = TAG_ARRAY | TAG_PLANE | TAG_CYLINDER | TAG_SPHERE | TAG_CONE
  | TAG_PARABOLOID | TAG_HYPERBOLOID | TAG_CAMERA | TAG_LIGHT

text \<open>\<open>RT_IS_ARRAY\<close>, \<open>RT_IS_SURFACE\<close> and the test \<open>tag > RT_TAG_SURFACE_MAX\<close> of format.h:
  the array tag is \<open>-1\<close>, surface tags lie strictly between it and \<open>RT_TAG_SURFACE_MAX\<close>,
  camera and light are \<open>100\<close> and \<open>101\<close>.\<close>

definition RT_IS_ARRAY :: "tag \<Rightarrow> bool" where
  "RT_IS_ARRAY t = (t = TAG_ARRAY)"

definition RT_IS_SURFACE :: "tag \<Rightarrow> bool" where
  "RT_IS_SURFACE t = (t = TAG_PLANE \<or> t = TAG_CYLINDER \<or> t = TAG_SPHERE \<or> t = TAG_CONE
     \<or> t = TAG_PARABOLOID \<or> t = TAG_HYPERBOLOID)"

definition above_SURFACE_MAX :: "tag \<Rightarrow> bool" where
  "above_SURFACE_MAX t = (t = TAG_CAMERA \<or> t = TAG_LIGHT)"

section \<open>Objects\<close>

text \<open>Vectors (\<open>rt_vec3\<close>, \<open>rt_vec4\<close>) are lists indexed by \<open>RT_X = RT_I = 0\<close>,
  \<open>RT_Y = RT_J = 1\<close>, \<open>RT_Z = RT_K = 2\<close>; \<open>rt_real\<close> values are taken as reals.\<close>

definition RT_X :: nat where "RT_X = 0"
definition RT_Y :: nat where "RT_Y = 1"
definition RT_Z :: nat where "RT_Z = 2"

definition RT_I :: nat where "RT_I = 0"
definition RT_J :: nat where "RT_J = 1"
definition RT_K :: nat where "RT_K = 2"

record rt_TRANSFORM3D =
  scl :: "real list"
  rot :: "real list"
  pos :: "real list"

text \<open>
  An object lives at an address of the heap; \<open>parent\<close>, \<open>trnode\<close> and \<open>bvnode\<close> are
  pointers (\<open>None\<close> is \<open>RT_NULL\<close>). The fields of the scene record \<open>rt_OBJECT\<close> that the
  object points to (\<open>trm\<close>, \<open>f_anim\<close>, \<open>time\<close>) are kept in the object itself. The
  bound record \<open>trb\<close> is identified with its object, so \<open>trb_trnode\<close> holds the address
  of the trnode whose \<open>trb\<close> is stored in \<open>trb->trnode\<close>. The matrix type is left open:
  \<open>matrix_from_transform\<close> and \<open>matrix_mul_matrix\<close> (rtgeom.cpp) are parameters.
\<close>

record 'm rt_Object =
  tag :: tag
  trm :: rt_TRANSFORM3D
  f_anim :: "(int \<Rightarrow> int \<Rightarrow> rt_TRANSFORM3D \<Rightarrow> rt_TRANSFORM3D) option"
  time :: int
  obj_changed :: flags
  obj_has_trm :: flags
  mtx_has_trm :: flags
  mtx :: 'm
  trnode :: "nat option"
  bvnode :: "nat option"
  parent :: "nat option"
  trb_trnode :: "nat option"

record 'm rtgeom =
  matrix_from_transform :: "rt_TRANSFORM3D \<Rightarrow> 'm"
  matrix_mul_matrix :: "'m \<Rightarrow> 'm \<Rightarrow> 'm"

text \<open>The state threaded through an update: the heap of objects and the trace of
  animation callbacks fired, each with the object, the time and the last time passed.\<close>

record 'm scene_state =
  heap :: "nat \<Rightarrow> 'm rt_Object option"
  anim_log :: "(nat \<times> int \<times> int) list"

subsection \<open>Own transform flags (\<open>rt_Object::update\<close>, first half)\<close>

text \<open>The two counting loops: for every listed value, count the components equal to it.\<close>

fun count_eq :: "real list \<Rightarrow> real list \<Rightarrow> nat" where
  "count_eq [] v = 0"
| "count_eq (a # as) v =
     (if v ! RT_X = a then 1 else 0) + (if v ! RT_Y = a then 1 else 0)
       + (if v ! RT_Z = a then 1 else 0) + count_eq as v"

definition scl_values :: "real list" where
  "scl_values = [-1, 1]"

definition rot_values :: "real list" where
  "rot_values = [-270, -180, -90, 0, 90, 180, 270]"

definition own_transform_flags :: "opt set \<Rightarrow> rt_TRANSFORM3D \<Rightarrow> flags" where
  "own_transform_flags opts t =
     (let f0 = {};
          f1 = f0 \<union> (if count_eq scl_values (scl t) = 3 then {} else {FLAG_SCL});
          f2 = f1 \<union> (if count_eq rot_values (rot t) = 3 then {} else {FLAG_ROT})
      in if f2 \<noteq> {} \<and> OPTS_FSCALE \<notin> opts then {FLAG_SCL, FLAG_ROT} else f2)"

subsection \<open>Search for the trnode\<close>

text \<open>The loop \<open>for (trnode = parent; trnode != RT_NULL; trnode = trnode->parent)\<close>.
  It has no result when a pointer dangles or the parent links form a cycle.\<close>

partial_function (option) search_trnode ::
  "(nat \<Rightarrow> 'm rt_Object option) \<Rightarrow> nat option \<Rightarrow> nat option option" where
  "search_trnode h p =
     (case p of
        None \<Rightarrow> Some None
      | Some a \<Rightarrow>
          (case h a of
             None \<Rightarrow> None
           | Some ob \<Rightarrow>
               if obj_has_trm ob \<noteq> {} then Some (Some a)
               else search_trnode h (parent ob)))"

subsection \<open>\<open>rt_Object::update\<close>\<close>

definition fire_anim :: "nat \<Rightarrow> int \<Rightarrow> 'm rt_Object \<Rightarrow> (nat \<times> int \<times> int) list
    \<Rightarrow> rt_TRANSFORM3D \<times> (nat \<times> int \<times> int) list" where
  "fire_anim this t ob lg =
     (case f_anim ob of
        None \<Rightarrow> (trm ob, lg)
      | Some f \<Rightarrow>
          if time ob \<noteq> t
          then (let last_time = (if time ob < 0 then 0 else time ob)
                in (f t last_time (trm ob), lg @ [(this, t, last_time)]))
          else (trm ob, lg))"

definition object_matrix :: "'m rtgeom \<Rightarrow> (nat \<Rightarrow> 'm rt_Object option) \<Rightarrow> 'm rt_Object
    \<Rightarrow> 'm \<Rightarrow> flags \<Rightarrow> nat option \<Rightarrow> 'm" where
  "object_matrix G h ob m fl tn =
     (if tn \<noteq> None \<and> tn = parent ob \<and> obj_has_trm ob = {}
         \<and> mtx_has_trm ob \<inter> {FLAG_ROT} \<noteq> {}
      then matrix_from_transform G (trm ob)
      else if tn \<noteq> None \<and> tn \<noteq> parent ob \<and> obj_has_trm ob \<noteq> {}
      then (let obj_mtx = matrix_from_transform G (trm ob);
                tmp_mtx = matrix_mul_matrix G (mtx (the (h (the tn)))) m
            in matrix_mul_matrix G tmp_mtx obj_mtx)
      else matrix_mul_matrix G m (matrix_from_transform G (trm ob)))"

definition Object_update :: "'m rtgeom \<Rightarrow> opt set \<Rightarrow> nat \<Rightarrow> int \<Rightarrow> 'm \<Rightarrow> flags
    \<Rightarrow> 'm scene_state \<Rightarrow> 'm scene_state option" where
  "Object_update G opts this t m fl s =
     (case heap s this of
        None \<Rightarrow> None
      | Some ob \<Rightarrow>
          (let (trm1, lg1) = fire_anim this t ob (anim_log s);
               ob1 = ob\<lparr>trm := trm1, time := t, bvnode := None,
                        obj_changed := (if f_anim ob \<noteq> None then {FLAG_ARR}
                                        else fl \<inter> {FLAG_ARR})\<rparr>
           in if obj_changed ob1 = {}
              then Some (s\<lparr>heap := (heap s)(this \<mapsto> ob1), anim_log := lg1\<rparr>)
              else
                (let oht = own_transform_flags opts trm1;
                     ob2 = ob1\<lparr>obj_has_trm := oht,
                               mtx_has_trm := oht \<union> (fl \<inter> {FLAG_SCL}) \<union> (fl \<inter> {FLAG_ROT})\<rparr>;
                     h2 = (heap s)(this \<mapsto> ob2)
                 in case search_trnode h2 (parent ob2) of
                      None \<Rightarrow> None
                    | Some tn0 \<Rightarrow>
                        (let ob3 = ob2\<lparr>mtx := object_matrix G h2 ob2 m fl tn0\<rparr>;
                             h3 = h2(this \<mapsto> ob3);
                             tn1 = (if obj_has_trm ob3 \<noteq> {} then Some this else tn0);
                             collapse = (tn1 \<noteq> None \<and> tn1 \<noteq> Some this
                                \<and> (OPTS_TARRAY \<notin> opts \<or> above_SURFACE_MAX (tag ob3)));
                             ob4 = (if collapse
                                    then ob3\<lparr>mtx := matrix_mul_matrix G
                                                 (mtx (the (h3 (the tn1)))) (mtx ob3)\<rparr>
                                    else ob3);
                             tn2 = (if collapse then Some this else tn1);
                             ob5 = ob4\<lparr>trnode := tn2, trb_trnode := tn2\<rparr>
                         in Some (s\<lparr>heap := (heap s)(this \<mapsto> ob5), anim_log := lg1\<rparr>)))))"

subsection \<open>\<open>update_bvnode\<close>\<close>

text \<open>\<open>rt_Object::update_bvnode\<close> on the object at address \<open>this\<close>; \<open>b\<close> is the array
  pointer passed, \<open>mode\<close> is \<open>RT_TRUE\<close> or \<open>RT_FALSE\<close>.\<close>

definition Object_update_bvnode :: "nat \<Rightarrow> nat option \<Rightarrow> bool \<Rightarrow> ('m, 'z) rt_Object_scheme
    \<Rightarrow> ('m, 'z) rt_Object_scheme" where
  "Object_update_bvnode this b mode ob =
     (if b = Some this then ob
      else
        (let ob1 = (if mode = True \<and> bvnode ob = None then ob\<lparr>bvnode := b\<rparr> else ob);
             ob2 = (if mode = False \<and> bvnode ob1 = b then ob1\<lparr>bvnode := None\<rparr> else ob1)
         in ob2))"

text \<open>\<open>rt_Camera::update_bvnode\<close> and \<open>rt_Light::update_bvnode\<close> have empty bodies;
  \<open>rt_Node::update_bvnode\<close> calls the base method.\<close>

definition Camera_update_bvnode :: "nat \<Rightarrow> nat option \<Rightarrow> bool \<Rightarrow> ('m, 'z) rt_Object_scheme
    \<Rightarrow> ('m, 'z) rt_Object_scheme" where
  "Camera_update_bvnode this b mode ob = ob"

definition Light_update_bvnode :: "nat \<Rightarrow> nat option \<Rightarrow> bool \<Rightarrow> ('m, 'z) rt_Object_scheme
    \<Rightarrow> ('m, 'z) rt_Object_scheme" where
  "Light_update_bvnode this b mode ob = ob"

definition Node_update_bvnode :: "nat \<Rightarrow> nat option \<Rightarrow> bool \<Rightarrow> ('m, 'z) rt_Object_scheme
    \<Rightarrow> ('m, 'z) rt_Object_scheme" where
  "Node_update_bvnode this b mode ob = Object_update_bvnode this b mode ob"

section \<open>Camera actions (\<open>rt_Camera::update(time, action)\<close>)\<close>


text \<open>A camera is an object with the fields of \<open>rt_Camera\<close>; \<open>dps\<close> and \<open>drt\<close> are
  the deltas of the scene record \<open>rt_CAMERA\<close>.\<close>

record 'm rt_Camera = "'m rt_Object" +
  dps :: "real list"
  drt :: "real list"
  hor_sin :: real
  hor_cos :: real
  cam_changed :: flags






text \<open>Example objects used to evaluate the definitions at concrete inputs.\<close>

definition trm_identity :: rt_TRANSFORM3D where
  "trm_identity = \<lparr>scl = [1, 1, 1], rot = [0, 0, 0], pos = [0, 0, 0]\<rparr>"

definition object_ex :: "tag \<Rightarrow> rt_TRANSFORM3D \<Rightarrow> nat option \<Rightarrow> unit rt_Object" where
  "object_ex tg t par =
     \<lparr>tag = tg, trm = t, f_anim = None, time = -1, obj_changed = {}, obj_has_trm = {},
      mtx_has_trm = {}, mtx = (), trnode = None, bvnode = None, parent = par,
      trb_trnode = None\<rparr>"

definition camera_ex :: "real \<Rightarrow> real \<Rightarrow> unit rt_Camera" where
  "camera_ex rx rz =
     \<lparr>tag = TAG_CAMERA, trm = \<lparr>scl = [1, 1, 1], rot = [rx, 0, rz], pos = [0, 0, 0]\<rparr>,
      f_anim = None, time = 0, obj_changed = {}, obj_has_trm = {}, mtx_has_trm = {},
      mtx = (), trnode = None, bvnode = None, parent = None, trb_trnode = None,
      dps = [1, 1, 1], drt = [10, 10, 10], hor_sin = 0, hor_cos = 1, cam_changed = {}\<rparr>"

section \<open>Well-formed parent chains and the specification's trnode\<close>

text \<open>\<open>anc_chain h p as\<close>: following the parent pointers from \<open>p\<close> visits exactly the
  addresses \<open>as\<close>, nearest ancestor first, and ends at \<open>RT_NULL\<close>.\<close>

fun anc_chain :: "(nat \<Rightarrow> 'm rt_Object option) \<Rightarrow> nat option \<Rightarrow> nat list \<Rightarrow> bool" where
  "anc_chain h p [] = (p = None)"
| "anc_chain h p (a # as) =
     (p = Some a \<and> (case h a of None \<Rightarrow> False | Some ob \<Rightarrow> anc_chain h (parent ob) as))"

text \<open>The nearest of the listed ancestors whose \<open>obj_has_trm\<close> flag word is not zero.\<close>

fun first_has_trm :: "(nat \<Rightarrow> 'm rt_Object option) \<Rightarrow> nat list \<Rightarrow> nat option" where
  "first_has_trm h [] = None"
| "first_has_trm h (a # as) =
     (case h a of
        None \<Rightarrow> None
      | Some ob \<Rightarrow> if obj_has_trm ob \<noteq> {} then Some a else first_has_trm h as)"

text \<open>A trivial transform in the specification's words: every scale is \<open>-1\<close> or \<open>+1\<close> and
  every rotation is one of the listed multiples of 90 degrees.\<close>

definition trivial_scale :: "rt_TRANSFORM3D \<Rightarrow> bool" where
  "trivial_scale t = (scl t ! RT_X \<in> {-1, 1} \<and> scl t ! RT_Y \<in> {-1, 1} \<and> scl t ! RT_Z \<in> {-1, 1})"

definition trivial_rotation :: "rt_TRANSFORM3D \<Rightarrow> bool" where
  "trivial_rotation t = (rot t ! RT_X \<in> {-270, -180, -90, 0, 90, 180, 270}
     \<and> rot t ! RT_Y \<in> {-270, -180, -90, 0, 90, 180, 270}
     \<and> rot t ! RT_Z \<in> {-270, -180, -90, 0, 90, 180, 270})"

definition trivial_transform :: "rt_TRANSFORM3D \<Rightarrow> bool" where
  "trivial_transform t = (trivial_scale t \<and> trivial_rotation t)"

text \<open>The flag word as the specification describes it: \<open>SCL\<close> for a non-trivial scale,
  \<open>ROT\<close> for a non-trivial rotation, and with \<open>FSCALE\<close> clear a non-trivial scale
  brings \<open>ROT\<close> with it.\<close>

definition spec_transform_flags :: "opt set \<Rightarrow> rt_TRANSFORM3D \<Rightarrow> flags" where
  "spec_transform_flags opts t =
     (if trivial_scale t then {} else {FLAG_SCL})
       \<union> (if trivial_rotation t then {} else {FLAG_ROT})
       \<union> (if OPTS_FSCALE \<notin> opts \<and> \<not> trivial_scale t then {FLAG_ROT} else {})"

text \<open>The trnode as the specification describes it: the nearest of the object itself
  and its ancestors whose own transform is non-trivial, \<open>RT_NULL\<close> when there is none.\<close>

fun nearest_nontrivial :: "(nat \<Rightarrow> 'm rt_Object option) \<Rightarrow> nat list \<Rightarrow> nat option" where
  "nearest_nontrivial h [] = None"
| "nearest_nontrivial h (a # as) =
     (case h a of
        None \<Rightarrow> None
      | Some ob \<Rightarrow> if \<not> trivial_transform (trm ob) then Some a else nearest_nontrivial h as)"

definition spec_trnode :: "(nat \<Rightarrow> 'm rt_Object option) \<Rightarrow> nat \<Rightarrow> nat list \<Rightarrow> nat option" where
  "spec_trnode h this as = nearest_nontrivial h (this # as)"

text \<open>The results of \<open>rt_Object::update\<close> written as functions of what it reads,
  for the proofs: the matrix and the trnode it computes when the search returned \<open>tn0\<close>
  and \<open>tmx\<close> is the matrix of that node, and the object it leaves behind.\<close>

definition new_mtx :: "'m rtgeom \<Rightarrow> opt set \<Rightarrow> nat \<Rightarrow> 'm \<Rightarrow> 'm \<Rightarrow> nat option \<Rightarrow> nat option
    \<Rightarrow> tag \<Rightarrow> rt_TRANSFORM3D \<Rightarrow> flags \<Rightarrow> flags \<Rightarrow> 'm" where
  "new_mtx G opts this m tmx tn0 par tg trm1 oht mht =
     (let m1 = (if tn0 \<noteq> None \<and> tn0 = par \<and> oht = {} \<and> mht \<inter> {FLAG_ROT} \<noteq> {}
                then matrix_from_transform G trm1
                else if tn0 \<noteq> None \<and> tn0 \<noteq> par \<and> oht \<noteq> {}
                then matrix_mul_matrix G (matrix_mul_matrix G tmx m)
                       (matrix_from_transform G trm1)
                else matrix_mul_matrix G m (matrix_from_transform G trm1));
          tn1 = (if oht \<noteq> {} then Some this else tn0);
          collapse = (tn1 \<noteq> None \<and> tn1 \<noteq> Some this
             \<and> (OPTS_TARRAY \<notin> opts \<or> above_SURFACE_MAX tg))
      in if collapse then matrix_mul_matrix G tmx m1 else m1)"

definition new_trnode :: "opt set \<Rightarrow> nat \<Rightarrow> nat option \<Rightarrow> tag \<Rightarrow> flags \<Rightarrow> nat option" where
  "new_trnode opts this tn0 tg oht =
     (let tn1 = (if oht \<noteq> {} then Some this else tn0);
          collapse = (tn1 \<noteq> None \<and> tn1 \<noteq> Some this
             \<and> (OPTS_TARRAY \<notin> opts \<or> above_SURFACE_MAX tg))
      in if collapse then Some this else tn1)"

definition changed_flags :: "flags \<Rightarrow> 'm rt_Object \<Rightarrow> flags" where
  "changed_flags fl ob = (if f_anim ob \<noteq> None then {FLAG_ARR} else fl \<inter> {FLAG_ARR})"

definition object_after :: "'m rtgeom \<Rightarrow> opt set \<Rightarrow> nat \<Rightarrow> int \<Rightarrow> 'm \<Rightarrow> flags
    \<Rightarrow> 'm \<Rightarrow> nat option \<Rightarrow> 'm rt_Object \<Rightarrow> 'm rt_Object" where
  "object_after G opts this t m fl tmx tn0 ob =
     (let trm1 = fst (fire_anim this t ob []);
          oht = own_transform_flags opts trm1;
          mht = oht \<union> (fl \<inter> {FLAG_SCL}) \<union> (fl \<inter> {FLAG_ROT})
      in if changed_flags fl ob = {}
         then ob\<lparr>trm := trm1, time := t, bvnode := None, obj_changed := {}\<rparr>
         else ob\<lparr>trm := trm1, time := t, bvnode := None, obj_changed := changed_flags fl ob,
                 obj_has_trm := oht, mtx_has_trm := mht,
                 mtx := new_mtx G opts this m tmx tn0 (parent ob) (tag ob) trm1 oht mht,
                 trnode := new_trnode opts this tn0 (tag ob) oht,
                 trb_trnode := new_trnode opts this tn0 (tag ob) oht\<rparr>)"

definition geom_ex :: "unit rtgeom" where
  "geom_ex = \<lparr>matrix_from_transform = (\<lambda>t. ()), matrix_mul_matrix = (\<lambda>a b. ())\<rparr>"

definition trm_rot45 :: rt_TRANSFORM3D where
  "trm_rot45 = \<lparr>scl = [1, 1, 1], rot = [45, 0, 0], pos = [0, 0, 0]\<rparr>"

text \<open>A two-object scene: an array at address 0, rotated by 45 degrees, and a light at
  address 1 below it with the identity transform.\<close>

definition scene_ex :: "unit scene_state" where
  "scene_ex =
     \<lparr>heap = [0 \<mapsto> object_ex TAG_ARRAY trm_rot45 None,
              1 \<mapsto> object_ex TAG_LIGHT trm_identity (Some 0)],
      anim_log = []\<rparr>"

text \<open>The update pass over it as \<open>rt_Array::update\<close> drives it: the array first, then
  its child with the array's flags added.\<close>

definition update_pass_ex :: "opt set \<Rightarrow> unit scene_state option" where
  "update_pass_ex opts =
     (case Object_update geom_ex opts 0 0 () {FLAG_OBJ, FLAG_ARR} scene_ex of
        None \<Rightarrow> None
      | Some s1 \<Rightarrow>
          (case heap s1 0 of
             None \<Rightarrow> None
           | Some arr \<Rightarrow>
               Object_update geom_ex opts 1 0 ()
                 ({FLAG_OBJ, FLAG_ARR} \<union> obj_has_trm arr \<union> obj_changed arr) s1))"



text \<open>What the pass leaves in the light and in the array, and the trnode the
  specification's words give the light.\<close>

definition light_trnode_ex :: "opt set \<Rightarrow> nat option" where
  "light_trnode_ex opts =
     (case update_pass_ex opts of
        None \<Rightarrow> None
      | Some s \<Rightarrow> (case heap s 1 of None \<Rightarrow> None | Some ob \<Rightarrow> trnode ob))"

definition light_spec_trnode_ex :: "opt set \<Rightarrow> nat option" where
  "light_spec_trnode_ex opts =
     (case update_pass_ex opts of None \<Rightarrow> None | Some s \<Rightarrow> spec_trnode (heap s) 1 [0])"

definition array_has_trm_ex :: "opt set \<Rightarrow> flags option" where
  "array_has_trm_ex opts =
     (case Object_update geom_ex opts 0 0 () {FLAG_OBJ, FLAG_ARR} scene_ex of
        None \<Rightarrow> None
      | Some s \<Rightarrow> map_option obj_has_trm (heap s 0))"

text \<open>The scene after the array's own update (\<open>FSCALE\<close> on), and a sphere that a
  relation has bound to the array at address 0.\<close>

definition scene_mid_ex :: "unit scene_state" where
  "scene_mid_ex =
     scene_ex\<lparr>heap := (heap scene_ex)(0 \<mapsto>
        (object_ex TAG_ARRAY trm_rot45 None)\<lparr>time := 0, obj_changed := {FLAG_ARR},
           obj_has_trm := {FLAG_ROT}, mtx_has_trm := {FLAG_ROT},
           trnode := Some 0, trb_trnode := Some 0\<rparr>)\<rparr>"

definition scene_bound_ex :: "unit scene_state" where
  "scene_bound_ex =
     \<lparr>heap = [0 \<mapsto> object_ex TAG_ARRAY trm_identity None,
              1 \<mapsto> (object_ex TAG_SPHERE trm_identity (Some 0))\<lparr>bvnode := Some 0\<rparr>],
      anim_log = []\<rparr>"

section \<open>Scene records and construction\<close>

text \<open>\<open>RT_INF\<close> (rtbase.h) stands for an unbounded coordinate in a clipper box; it is
  the parameter \<open>infty\<close> of every function that reads it.\<close>

record rt_MATERIAL =
  mat_tag :: nat
  lgt :: "real list"
  prp :: "real list"

record rt_SIDE =
  pmat :: "rt_MATERIAL option"

record rt_SURFACE =
  srf_min :: "real list"
  srf_max :: "real list"
  side_outer :: rt_SIDE
  side_inner :: rt_SIDE





























definition surface_ex :: "real list \<Rightarrow> real list \<Rightarrow> rt_MATERIAL option \<Rightarrow> rt_SURFACE" where
  "surface_ex lo hi m =
     \<lparr>srf_min = lo, srf_max = hi, side_outer = \<lparr>pmat = m\<rparr>, side_inner = \<lparr>pmat = m\<rparr>\<rparr>"


section \<open>Bounding and clipping boxes\<close>

text \<open>
  A box is a pair of vectors \<open>(min, max)\<close>; only the components \<open>I, J, K\<close> (or
  \<open>X, Y, Z\<close>) of a vector are read or written by the functions below, so a vector is
  its first three components. A pair of null pointers passed for a box is \<open>None\<close>.
  \<open>RT_MAX\<close>, \<open>RT_MIN\<close>, \<open>RT_FABS\<close> and \<open>RT_SQRT\<close> are \<open>max\<close>, \<open>min\<close>, \<open>abs\<close> and \<open>sqrt\<close>.
\<close>

type_synonym box = "real list \<times> real list"

text \<open>The class of a surface with the scalars of its scene record: \<open>xcl->rad\<close>,
  \<open>xsp->rad\<close>, \<open>xcn->rat\<close>, \<open>xpb->par\<close>, \<open>xhb->rat\<close> and \<open>xhb->hyp\<close>.\<close>

datatype shape = Plane | Cylinder real | Sphere real | Cone real | Paraboloid real
  | Hyperboloid real real

text \<open>An element of a clipper list (\<open>rt_ELEM\<close>): \<open>addr\<close> is the address the arena gave
  it, \<open>temp\<close> points to the bound record of an object (identified with the object).\<close>

record rt_ELEM =
  addr :: nat
  data :: int
  simd :: "nat option"
  temp :: "nat option"

definition RT_ACCUM_ENTER :: int where "RT_ACCUM_ENTER = -1"
definition RT_ACCUM_LEAVE :: int where "RT_ACCUM_LEAVE = 1"
definition RT_REL_MINUS_INNER :: int where "RT_REL_MINUS_INNER = -1"
definition RT_REL_MINUS_OUTER :: int where "RT_REL_MINUS_OUTER = 1"

text \<open>A surface is a node with the fields the box computation reads: the clipper box
  of its scene record, its position \<open>pos\<close> (row 3 of its matrix), the axis mapping
  \<open>mp_i, mp_j, mp_k\<close> with the signs \<open>sgn\<close>, the boxes of its \<open>rt_SHAPE\<close> and its custom
  clipper list (\<open>s_srf->msc_p[2]\<close>). Arrays live in the same heap; for them only the
  object fields and the children \<open>obj_arr\<close> are read.\<close>

record 'm rt_Surface = "'m rt_Object" +
  shape :: shape
  srf_rec :: rt_SURFACE
  wpos :: "real list"
  mp_i :: nat
  mp_j :: nat
  mp_k :: nat
  sgn :: "int list"
  srf_changed :: flags
  bbox :: box
  cbox :: box
  clippers :: "rt_ELEM list"
  obj_arr :: "nat list"

subsection \<open>\<open>adjust_minmax\<close>\<close>

text \<open>\<open>rt_Surface::adjust_minmax\<close>: the clipping box keeps a source bound, or drops
  it when the source is tighter than the clipper box of the record.\<close>

definition Surface_adjust_minmax :: "real \<Rightarrow> rt_SURFACE \<Rightarrow> real list \<Rightarrow> real list \<Rightarrow> bool
    \<Rightarrow> box option" where
  "Surface_adjust_minmax infty sr smin smax want_c =
     (if want_c
      then Some
        ([if smin ! RT_I > srf_min sr ! RT_I then - infty else smin ! RT_I,
          if smin ! RT_J > srf_min sr ! RT_J then - infty else smin ! RT_J,
          if smin ! RT_K > srf_min sr ! RT_K then - infty else smin ! RT_K],
         [if smax ! RT_I < srf_max sr ! RT_I then infty else smax ! RT_I,
          if smax ! RT_J < srf_max sr ! RT_J then infty else smax ! RT_J,
          if smax ! RT_K < srf_max sr ! RT_K then infty else smax ! RT_K])
      else None)"

text \<open>The two statements shared by the quadrics, for one axis: clamp the bounding box
  to the radius, and drop a clipping bound the radius already implies.\<close>

definition bbox_clamp :: "real \<Rightarrow> real list \<Rightarrow> real list \<Rightarrow> nat \<Rightarrow> real \<times> real" where
  "bbox_clamp rad smin smax i = (max (smin ! i) (- rad), min (smax ! i) rad)"

definition cbox_cut :: "real \<Rightarrow> real \<Rightarrow> box \<Rightarrow> nat \<Rightarrow> real \<times> real" where
  "cbox_cut infty rad c i =
     (if fst c ! i \<le> - rad then - infty else fst c ! i,
      if snd c ! i \<ge> rad then infty else snd c ! i)"

definition Plane_adjust_minmax :: "real \<Rightarrow> rt_SURFACE \<Rightarrow> real list \<Rightarrow> real list \<Rightarrow> bool \<Rightarrow> bool
    \<Rightarrow> box option \<times> box option" where
  "Plane_adjust_minmax infty sr smin smax want_b want_c =
     (let c = Surface_adjust_minmax infty sr smin smax want_c;
          b = (if want_b
               then Some ([smin ! RT_I, smin ! RT_J, 0], [smax ! RT_I, smax ! RT_J, 0])
               else None);
          c' = (case c of
                  None \<Rightarrow> None
                | Some (cmin, cmax) \<Rightarrow> Some (cmin[RT_K := - infty], cmax[RT_K := infty]))
      in (b, c'))"

definition Cylinder_adjust_minmax :: "real \<Rightarrow> real \<Rightarrow> rt_SURFACE \<Rightarrow> real list \<Rightarrow> real list
    \<Rightarrow> bool \<Rightarrow> bool \<Rightarrow> box option \<times> box option" where
  "Cylinder_adjust_minmax infty xrad sr smin smax want_b want_c =
     (let c = Surface_adjust_minmax infty sr smin smax want_c;
          rad = \<bar>xrad\<bar>;
          b = (if want_b
               then Some
                 ([fst (bbox_clamp rad smin smax RT_I), fst (bbox_clamp rad smin smax RT_J),
                   smin ! RT_K],
                  [snd (bbox_clamp rad smin smax RT_I), snd (bbox_clamp rad smin smax RT_J),
                   smax ! RT_K])
               else None);
          c' = (case c of
                  None \<Rightarrow> None
                | Some cb \<Rightarrow> Some
                    ((fst cb)[RT_I := fst (cbox_cut infty rad cb RT_I),
                              RT_J := fst (cbox_cut infty rad cb RT_J)],
                     (snd cb)[RT_I := snd (cbox_cut infty rad cb RT_I),
                              RT_J := snd (cbox_cut infty rad cb RT_J)]))
      in (b, c'))"

text \<open>The loop of \<open>rt_Sphere::adjust_minmax\<close> over the axes \<open>k = 0, 1, 2\<close>: \<open>top\<close> and
  the radius \<open>r\<close> of the section at \<open>top\<close>, which shrinks the radii kept for the two
  other axes.\<close>

definition sphere_top :: "real list \<Rightarrow> real list \<Rightarrow> nat \<Rightarrow> real" where
  "sphere_top smin smax k =
     (if smin ! k > 0 then smin ! k else if smax ! k < 0 then - smax ! k else 0)"

definition sphere_section :: "real \<Rightarrow> real list \<Rightarrow> real list \<Rightarrow> nat \<Rightarrow> real" where
  "sphere_section xrad smin smax k =
     sqrt (max (xrad * xrad - sphere_top smin smax k * sphere_top smin smax k) 0)"

definition sphere_step :: "real \<Rightarrow> real list \<Rightarrow> real list \<Rightarrow> nat \<Rightarrow> real list \<Rightarrow> real list" where
  "sphere_step xrad smin smax k rad =
     (let r = sphere_section xrad smin smax k;
          i = (k + 1) mod 3;
          rad1 = (if rad ! i > r then rad[i := r] else rad);
          j = (k + 2) mod 3;
          rad2 = (if rad1 ! j > r then rad1[j := r] else rad1)
      in rad2)"

definition sphere_radii :: "real \<Rightarrow> real list \<Rightarrow> real list \<Rightarrow> real list" where
  "sphere_radii xrad smin smax =
     fold (sphere_step xrad smin smax) [0, 1, 2] [\<bar>xrad\<bar>, \<bar>xrad\<bar>, \<bar>xrad\<bar>]"

definition Sphere_adjust_minmax :: "real \<Rightarrow> real \<Rightarrow> rt_SURFACE \<Rightarrow> real list \<Rightarrow> real list
    \<Rightarrow> bool \<Rightarrow> bool \<Rightarrow> box option \<times> box option" where
  "Sphere_adjust_minmax infty xrad sr smin smax want_b want_c =
     (let c = Surface_adjust_minmax infty sr smin smax want_c;
          rad = sphere_radii xrad smin smax;
          b = (if want_b
               then Some
                 ([fst (bbox_clamp (rad ! RT_I) smin smax RT_I),
                   fst (bbox_clamp (rad ! RT_J) smin smax RT_J),
                   fst (bbox_clamp (rad ! RT_K) smin smax RT_K)],
                  [snd (bbox_clamp (rad ! RT_I) smin smax RT_I),
                   snd (bbox_clamp (rad ! RT_J) smin smax RT_J),
                   snd (bbox_clamp (rad ! RT_K) smin smax RT_K)])
               else None);
          c' = (case c of
                  None \<Rightarrow> None
                | Some cb \<Rightarrow> Some
                    ([fst (cbox_cut infty (rad ! RT_I) cb RT_I),
                      fst (cbox_cut infty (rad ! RT_J) cb RT_J),
                      fst (cbox_cut infty (rad ! RT_K) cb RT_K)],
                     [snd (cbox_cut infty (rad ! RT_I) cb RT_I),
                      snd (cbox_cut infty (rad ! RT_J) cb RT_J),
                      snd (cbox_cut infty (rad ! RT_K) cb RT_K)]))
      in (b, c'))"

definition Cone_adjust_minmax :: "real \<Rightarrow> real \<Rightarrow> rt_SURFACE \<Rightarrow> real list \<Rightarrow> real list
    \<Rightarrow> bool \<Rightarrow> bool \<Rightarrow> box option \<times> box option" where
  "Cone_adjust_minmax infty xrat sr smin smax want_b want_c =
     (let top = max \<bar>smin ! RT_K\<bar> \<bar>smax ! RT_K\<bar>
      in Cylinder_adjust_minmax infty (top * \<bar>xrat\<bar>) sr smin smax want_b want_c)"

definition Hyperboloid_adjust_minmax :: "real \<Rightarrow> real \<Rightarrow> real \<Rightarrow> rt_SURFACE \<Rightarrow> real list
    \<Rightarrow> real list \<Rightarrow> bool \<Rightarrow> bool \<Rightarrow> box option \<times> box option" where
  "Hyperboloid_adjust_minmax infty xrat xhyp sr smin smax want_b want_c =
     (let top = max \<bar>smin ! RT_K\<bar> \<bar>smax ! RT_K\<bar>
      in Cylinder_adjust_minmax infty (sqrt (top * top * xrat * xrat + xhyp)) sr smin smax
           want_b want_c)"

definition Paraboloid_adjust_minmax :: "real \<Rightarrow> real \<Rightarrow> rt_SURFACE \<Rightarrow> real list \<Rightarrow> real list
    \<Rightarrow> bool \<Rightarrow> bool \<Rightarrow> box option \<times> box option" where
  "Paraboloid_adjust_minmax infty par sr smin smax want_b want_c =
     (let c = Surface_adjust_minmax infty sr smin smax want_c;
          top = max (if par < 0 then - smin ! RT_K else smax ! RT_K) 0;
          rad = sqrt (top * \<bar>par\<bar>);
          b = (if want_b
               then Some
                 ([fst (bbox_clamp rad smin smax RT_I), fst (bbox_clamp rad smin smax RT_J),
                   if smin ! RT_K \<le> 0 \<and> par > 0 then 0 else smin ! RT_K],
                  [snd (bbox_clamp rad smin smax RT_I), snd (bbox_clamp rad smin smax RT_J),
                   if smax ! RT_K \<ge> 0 \<and> par < 0 then 0 else smax ! RT_K])
               else None);
          c' = (case c of
                  None \<Rightarrow> None
                | Some cb \<Rightarrow> Some
                    ([fst (cbox_cut infty rad cb RT_I), fst (cbox_cut infty rad cb RT_J),
                      if fst cb ! RT_K \<le> 0 \<and> par > 0 then - infty else fst cb ! RT_K],
                     [snd (cbox_cut infty rad cb RT_I), snd (cbox_cut infty rad cb RT_J),
                      if snd cb ! RT_K \<ge> 0 \<and> par < 0 then infty else snd cb ! RT_K]))
      in (b, c'))"

text \<open>The virtual call \<open>adjust_minmax\<close>.\<close>

definition adjust_minmax :: "real \<Rightarrow> shape \<Rightarrow> rt_SURFACE \<Rightarrow> real list \<Rightarrow> real list
    \<Rightarrow> bool \<Rightarrow> bool \<Rightarrow> box option \<times> box option" where
  "adjust_minmax infty sh sr smin smax want_b want_c =
     (case sh of
        Plane \<Rightarrow> Plane_adjust_minmax infty sr smin smax want_b want_c
      | Cylinder xrad \<Rightarrow> Cylinder_adjust_minmax infty xrad sr smin smax want_b want_c
      | Sphere xrad \<Rightarrow> Sphere_adjust_minmax infty xrad sr smin smax want_b want_c
      | Cone xrat \<Rightarrow> Cone_adjust_minmax infty xrat sr smin smax want_b want_c
      | Paraboloid par \<Rightarrow> Paraboloid_adjust_minmax infty par sr smin smax want_b want_c
      | Hyperboloid xrat xhyp \<Rightarrow>
          Hyperboloid_adjust_minmax infty xrat xhyp sr smin smax want_b want_c)"

text \<open>The sphere's rule in the specification's words: \<open>top\<close> is the larger of
  \<open>|smin[k]|\<close> and \<open>|smax[k]|\<close>, cut at the radius.\<close>

definition spec_sphere_top :: "real \<Rightarrow> real list \<Rightarrow> real list \<Rightarrow> nat \<Rightarrow> real" where
  "spec_sphere_top xrad smin smax k = min (max \<bar>smin ! k\<bar> \<bar>smax ! k\<bar>) \<bar>xrad\<bar>"

definition spec_sphere_section :: "real \<Rightarrow> real list \<Rightarrow> real list \<Rightarrow> nat \<Rightarrow> real" where
  "spec_sphere_section xrad smin smax k =
     sqrt (xrad * xrad - spec_sphere_top xrad smin smax k * spec_sphere_top xrad smin smax k)"

text \<open>The radius kept for axis \<open>i\<close>: the sections at the two other axes shrink it.\<close>

definition eff_radius :: "real \<Rightarrow> real list \<Rightarrow> real list \<Rightarrow> nat \<Rightarrow> real" where
  "eff_radius xrad smin smax i =
     min (min \<bar>xrad\<bar> (sphere_section xrad smin smax ((i + 1) mod 3)))
         (sphere_section xrad smin smax ((i + 2) mod 3))"

definition spec_eff_radius :: "real \<Rightarrow> real list \<Rightarrow> real list \<Rightarrow> nat \<Rightarrow> real" where
  "spec_eff_radius xrad smin smax i =
     min (min \<bar>xrad\<bar> (spec_sphere_section xrad smin smax ((i + 1) mod 3)))
         (spec_sphere_section xrad smin smax ((i + 2) mod 3))"

subsection \<open>\<open>invert_minmax\<close>, \<open>direct_minmax\<close>, \<open>recalc_minmax\<close>\<close>

definition vec3_max :: "real list \<Rightarrow> real list \<Rightarrow> real list" where
  "vec3_max a b = [max (a ! 0) (b ! 0), max (a ! 1) (b ! 1), max (a ! 2) (b ! 2)]"

definition vec3_min :: "real list \<Rightarrow> real list \<Rightarrow> real list" where
  "vec3_min a b = [min (a ! 0) (b ! 0), min (a ! 1) (b ! 1), min (a ! 2) (b ! 2)]"

definition pps_of :: "nat \<Rightarrow> ('m, 'z) rt_Surface_scheme \<Rightarrow> real list" where
  "pps_of this sf = (if trnode sf = Some this then [0, 0, 0, 0] else wpos sf)"

definition invert_minmax :: "real \<Rightarrow> nat \<Rightarrow> ('m, 'z) rt_Surface_scheme \<Rightarrow> box \<Rightarrow> box" where
  "invert_minmax infty this sf s =
     (let smin = fst s; smax = snd s; pps = pps_of this sf;
          tmin = [if smin ! RT_X = - infty then - infty else smin ! RT_X - pps ! RT_X,
                  if smin ! RT_Y = - infty then - infty else smin ! RT_Y - pps ! RT_Y,
                  if smin ! RT_Z = - infty then - infty else smin ! RT_Z - pps ! RT_Z];
          tmax = [if smax ! RT_X = infty then infty else smax ! RT_X - pps ! RT_X,
                  if smax ! RT_Y = infty then infty else smax ! RT_Y - pps ! RT_Y,
                  if smax ! RT_Z = infty then infty else smax ! RT_Z - pps ! RT_Z];
          dmin = [if sgn sf ! RT_I > 0 then tmin ! mp_i sf else - tmax ! mp_i sf,
                  if sgn sf ! RT_J > 0 then tmin ! mp_j sf else - tmax ! mp_j sf,
                  if sgn sf ! RT_K > 0 then tmin ! mp_k sf else - tmax ! mp_k sf];
          dmax = [if sgn sf ! RT_I > 0 then tmax ! mp_i sf else - tmin ! mp_i sf,
                  if sgn sf ! RT_J > 0 then tmax ! mp_j sf else - tmin ! mp_j sf,
                  if sgn sf ! RT_K > 0 then tmax ! mp_k sf else - tmin ! mp_k sf]
      in (dmin, dmax))"

text \<open>In \<open>direct_minmax\<close> the temporaries are written at \<open>mp_i, mp_j, mp_k\<close>; when these
  are a permutation of the axes every component is written, a component left unwritten
  is uninitialised in the source and 0 here.\<close>

definition direct_minmax :: "real \<Rightarrow> nat \<Rightarrow> ('m, 'z) rt_Surface_scheme \<Rightarrow> box \<Rightarrow> box" where
  "direct_minmax infty this sf s =
     (let smin = fst s; smax = snd s; pps = pps_of this sf;
          tmin = [0, 0, 0]
            [mp_i sf := (if sgn sf ! RT_I > 0 then smin ! RT_I else - smax ! RT_I),
             mp_j sf := (if sgn sf ! RT_J > 0 then smin ! RT_J else - smax ! RT_J),
             mp_k sf := (if sgn sf ! RT_K > 0 then smin ! RT_K else - smax ! RT_K)];
          tmax = [0, 0, 0]
            [mp_i sf := (if sgn sf ! RT_I > 0 then smax ! RT_I else - smin ! RT_I),
             mp_j sf := (if sgn sf ! RT_J > 0 then smax ! RT_J else - smin ! RT_J),
             mp_k sf := (if sgn sf ! RT_K > 0 then smax ! RT_K else - smin ! RT_K)];
          dmin = [if tmin ! RT_X = - infty then - infty else tmin ! RT_X + pps ! RT_X,
                  if tmin ! RT_Y = - infty then - infty else tmin ! RT_Y + pps ! RT_Y,
                  if tmin ! RT_Z = - infty then - infty else tmin ! RT_Z + pps ! RT_Z];
          dmax = [if tmax ! RT_X = infty then infty else tmax ! RT_X + pps ! RT_X,
                  if tmax ! RT_Y = infty then infty else tmax ! RT_Y + pps ! RT_Y,
                  if tmax ! RT_Z = infty then infty else tmax ! RT_Z + pps ! RT_Z]
      in (dmin, dmax))"

text \<open>
  \<open>rt_Surface::recalc_minmax(smin, smax, bmin, bmax, cmin, cmax)\<close>. The source box is
  \<open>s\<close> (\<open>None\<close> for null pointers), \<open>want_b\<close> says whether \<open>bmin, bmax\<close> are given, and \<open>c\<close>
  holds the contents of \<open>cmin, cmax\<close> when they are given. The result is the pair of
  boxes written through \<open>bmin, bmax\<close> and \<open>cmin, cmax\<close>. Three modes: with a source and no
  bounding box the adjustments are accumulated into \<open>c\<close>; with a source and both boxes
  the source is applied; without a source the boxes start from the clipper box of the
  record. A source with a bounding box and no clipping box reads uninitialised
  temporaries: no result.
\<close>

definition accum_mark :: "real \<Rightarrow> box \<Rightarrow> box \<Rightarrow> box" where
  "accum_mark infty t l =
     ([if fst t ! RT_I = fst l ! RT_I then - infty else fst l ! RT_I,
       if fst t ! RT_J = fst l ! RT_J then - infty else fst l ! RT_J,
       if fst t ! RT_K = fst l ! RT_K then - infty else fst l ! RT_K],
      [if snd t ! RT_I = snd l ! RT_I then infty else snd l ! RT_I,
       if snd t ! RT_J = snd l ! RT_J then infty else snd l ! RT_J,
       if snd t ! RT_K = snd l ! RT_K then infty else snd l ! RT_K])"

definition recalc_minmax :: "real \<Rightarrow> nat \<Rightarrow> ('m, 'z) rt_Surface_scheme \<Rightarrow> box option \<Rightarrow> bool
    \<Rightarrow> box option \<Rightarrow> (box option \<times> box option) option" where
  "recalc_minmax infty this sf s want_b c =
     (case s of
        Some sb \<Rightarrow>
          if \<not> want_b
          then
            (let t = invert_minmax infty this sf sb
             in case adjust_minmax infty (shape sf) (srf_rec sf) (fst t) (snd t) True False of
                  (Some l, _) \<Rightarrow>
                    (case c of
                       None \<Rightarrow> Some (None, None)
                     | Some p \<Rightarrow>
                         (let t2 = direct_minmax infty this sf (accum_mark infty t l)
                          in Some (None, Some (vec3_max (fst p) (fst t2),
                                               vec3_min (snd p) (snd t2)))))
                | (None, _) \<Rightarrow> None)
          else
            (case c of
               None \<Rightarrow> None
             | Some p \<Rightarrow>
                 (let t = invert_minmax infty this sf sb;
                      tmin = vec3_max (fst t) (srf_min (srf_rec sf));
                      tmax = vec3_min (snd t) (srf_max (srf_rec sf));
                      (b', c') = adjust_minmax infty (shape sf) (srf_rec sf) tmin tmax True True
                  in Some (map_option (direct_minmax infty this sf) b',
                           map_option (direct_minmax infty this sf) c')))
      | None \<Rightarrow>
          (let (b', c') = adjust_minmax infty (shape sf) (srf_rec sf)
                 (srf_min (srf_rec sf)) (srf_max (srf_rec sf)) want_b (c \<noteq> None)
           in Some (map_option (direct_minmax infty this sf) b',
                    map_option (direct_minmax infty this sf) c')))"

subsection \<open>\<open>update_minmax\<close>\<close>

text \<open>The test that makes both loops over the custom clippers \<open>continue\<close>, for an
  element that points to the object \<open>ob\<close>.\<close>

definition clipper_skipped :: "nat \<Rightarrow> nat option \<Rightarrow> rt_ELEM \<Rightarrow> ('m, 'z) rt_Surface_scheme \<Rightarrow> bool" where
  "clipper_skipped skip trn e ob =
     (skip = 1 \<or> tag ob = TAG_ARRAY \<or> tag ob = TAG_PLANE \<or> trnode ob \<noteq> trn
        \<or> data e \<noteq> RT_REL_MINUS_OUTER)"

fun changed_loop :: "(nat \<Rightarrow> 'm rt_Surface option) \<Rightarrow> nat option \<Rightarrow> rt_ELEM list \<Rightarrow> nat
    \<Rightarrow> flags \<Rightarrow> flags option" where
  "changed_loop h trn [] skip ch = Some ch"
| "changed_loop h trn (e # es) skip ch =
     (case temp e of
        None \<Rightarrow> changed_loop h trn es (1 - skip) ch
      | Some a \<Rightarrow>
          (case h a of
             None \<Rightarrow> None
           | Some ob \<Rightarrow>
               if clipper_skipped skip trn e ob then changed_loop h trn es skip ch
               else changed_loop h trn es skip (ch \<union> obj_changed ob)))"

fun accum_loop :: "real \<Rightarrow> (nat \<Rightarrow> 'm rt_Surface option) \<Rightarrow> nat option \<Rightarrow> box
    \<Rightarrow> rt_ELEM list \<Rightarrow> nat \<Rightarrow> box \<Rightarrow> box option" where
  "accum_loop infty h trn bb [] skip c = Some c"
| "accum_loop infty h trn bb (e # es) skip c =
     (case temp e of
        None \<Rightarrow> accum_loop infty h trn bb es (1 - skip) c
      | Some a \<Rightarrow>
          (case h a of
             None \<Rightarrow> None
           | Some ob \<Rightarrow>
               if clipper_skipped skip trn e ob then accum_loop infty h trn bb es skip c
               else
                 (case recalc_minmax infty a ob (Some bb) False (Some c) of
                    Some (_, Some c') \<Rightarrow> accum_loop infty h trn bb es skip c'
                  | _ \<Rightarrow> None)))"

definition update_minmax :: "opt set \<Rightarrow> real \<Rightarrow> (nat \<Rightarrow> 'm rt_Surface option) \<Rightarrow> nat
    \<Rightarrow> (nat \<Rightarrow> 'm rt_Surface option) option" where
  "update_minmax opts infty h this =
     (case h this of
        None \<Rightarrow> None
      | Some sf0 \<Rightarrow>
          (let sf = sf0\<lparr>srf_changed := obj_changed sf0\<rparr>;
               elm = clippers sf
           in if elm = [] \<or> trnode sf = Some this \<or> OPTS_ADJUST \<notin> opts
              then
                (case recalc_minmax infty this sf None True (Some (cbox sf)) of
                   Some (Some b, Some c) \<Rightarrow> Some (h(this \<mapsto> sf\<lparr>bbox := b, cbox := c\<rparr>))
                 | _ \<Rightarrow> None)
              else
                (case changed_loop h (trnode sf) elm 0 (srf_changed sf) of
                   None \<Rightarrow> None
                 | Some ch \<Rightarrow>
                     (let sf1 = sf\<lparr>srf_changed := ch\<rparr>
                      in if ch = {} then Some (h(this \<mapsto> sf1))
                         else
                           (case recalc_minmax infty this sf1 None True None of
                              Some (Some b, _) \<Rightarrow>
                                (let sf2 = sf1\<lparr>bbox := b,
                                       cbox := ([- infty, - infty, - infty],
                                                [infty, infty, infty])\<rparr>
                                 in case accum_loop infty h (trnode sf2) (bbox sf2) elm 0
                                           (cbox sf2) of
                                      None \<Rightarrow> None
                                    | Some ca \<Rightarrow>
                                        (case recalc_minmax infty this sf2 (Some ca) True
                                                (Some ca) of
                                           Some (Some b', Some c') \<Rightarrow>
                                             Some (h(this \<mapsto> sf2\<lparr>bbox := b', cbox := c'\<rparr>))
                                         | _ \<Rightarrow> None))
                            | _ \<Rightarrow> None)))))"

subsection \<open>The update of the boxes in the specification's words\<close>

text \<open>An element lies outside the accumulation segments when an even number of
  accumulation markers (elements that point to no object) precede it in the list. The
  clippers that contribute are the elements outside the segments that point to a
  surface other than a plane with the trnode of the updated surface and carry
  \<open>MINUS_OUTER\<close>.\<close>

definition markers_before :: "rt_ELEM list \<Rightarrow> nat \<Rightarrow> nat" where
  "markers_before es n = length (filter (\<lambda>e. temp e = None) (take n es))"

definition spec_contributor :: "(nat \<Rightarrow> 'm rt_Surface option) \<Rightarrow> nat option \<Rightarrow> nat
    \<Rightarrow> rt_ELEM list \<Rightarrow> nat \<Rightarrow> bool" where
  "spec_contributor h trn k es n =
     (case temp (es ! n) of
        None \<Rightarrow> False
      | Some a \<Rightarrow>
          (case h a of
             None \<Rightarrow> False
           | Some ob \<Rightarrow>
               RT_IS_SURFACE (tag ob) \<and> tag ob \<noteq> TAG_PLANE \<and> trnode ob = trn
                 \<and> data (es ! n) = RT_REL_MINUS_OUTER \<and> even (k + markers_before es n)))"

definition spec_contributors :: "(nat \<Rightarrow> 'm rt_Surface option) \<Rightarrow> nat option \<Rightarrow> nat
    \<Rightarrow> rt_ELEM list \<Rightarrow> rt_ELEM list" where
  "spec_contributors h trn k es =
     map (nth es) (filter (spec_contributor h trn k es) [0..<length es])"

definition clipper_object :: "(nat \<Rightarrow> 'm rt_Surface option) \<Rightarrow> rt_ELEM \<Rightarrow> 'm rt_Surface" where
  "clipper_object h e = the (h (the (temp e)))"

definition spec_accumulate :: "real \<Rightarrow> (nat \<Rightarrow> 'm rt_Surface option) \<Rightarrow> box \<Rightarrow> rt_ELEM
    \<Rightarrow> box \<Rightarrow> box" where
  "spec_accumulate infty h bb e c =
     (case recalc_minmax infty (the (temp e)) (clipper_object h e) (Some bb) False (Some c) of
        Some (_, Some c') \<Rightarrow> c'
      | _ \<Rightarrow> c)"

text \<open>\<open>spec_update_minmax gate\<close>: the two paths of the specification. With \<open>gate\<close> the
  second path is taken only when the surface or one of the contributing clippers has
  changed (and the boxes are left as they are otherwise); without it the second path is
  always taken, as the specification's sentence reads.\<close>

definition spec_update_minmax :: "bool \<Rightarrow> opt set \<Rightarrow> real \<Rightarrow> (nat \<Rightarrow> 'm rt_Surface option)
    \<Rightarrow> nat \<Rightarrow> 'm rt_Surface \<Rightarrow> 'm rt_Surface" where
  "spec_update_minmax gate opts infty h this sf =
     (if clippers sf = [] \<or> trnode sf = Some this \<or> OPTS_ADJUST \<notin> opts
      then
        (let (b, c) = adjust_minmax infty (shape sf) (srf_rec sf)
               (srf_min (srf_rec sf)) (srf_max (srf_rec sf)) True True
         in sf\<lparr>srf_changed := obj_changed sf,
                bbox := direct_minmax infty this sf (the b),
                cbox := direct_minmax infty this sf (the c)\<rparr>)
      else
        (let cs = spec_contributors h (trnode sf) 0 (clippers sf);
             ch = fold (\<lambda>e ch. ch \<union> obj_changed (clipper_object h e)) cs (obj_changed sf)
         in if gate \<and> ch = {} then sf\<lparr>srf_changed := {}\<rparr>
            else
              (let (b, c) = adjust_minmax infty (shape sf) (srf_rec sf)
                     (srf_min (srf_rec sf)) (srf_max (srf_rec sf)) True False;
                   bb = direct_minmax infty this sf (the b);
                   ca = fold (spec_accumulate infty h bb) cs
                          ([- infty, - infty, - infty], [infty, infty, infty])
               in case recalc_minmax infty this sf (Some ca) True (Some ca) of
                    Some (Some b', Some c') \<Rightarrow> sf\<lparr>srf_changed := ch, bbox := b', cbox := c'\<rparr>
                  | _ \<Rightarrow> sf)))"

text \<open>Every element of a clipper list is an accumulation marker or points to an array
  or a surface of the heap, as \<open>add_relation\<close> builds the list.\<close>

definition clippers_wf :: "(nat \<Rightarrow> 'm rt_Surface option) \<Rightarrow> rt_ELEM list \<Rightarrow> bool" where
  "clippers_wf h es =
     list_all (\<lambda>e. case temp e of
                      None \<Rightarrow> True
                    | Some a \<Rightarrow>
                        (case h a of
                           None \<Rightarrow> False
                         | Some ob \<Rightarrow> RT_IS_ARRAY (tag ob) \<or> RT_IS_SURFACE (tag ob))) es"

text \<open>A cylinder of radius 1 along \<open>K\<close>, clipped to \<open>[-2, 2]\<close>, at address 1, with one
  custom clipper: the outer subspace of the unit sphere at address 2 (\<open>RT_INF = 1000\<close>).
  Both are axis-aligned at the origin and without trnode; the boxes of the cylinder are
  still zero.\<close>

definition surface_node_ex :: "tag \<Rightarrow> shape \<Rightarrow> real list \<Rightarrow> real list \<Rightarrow> flags \<Rightarrow> rt_ELEM list
    \<Rightarrow> unit rt_Surface" where
  "surface_node_ex tg sh lo hi chg cl =
     \<lparr>tag = tg, trm = trm_identity, f_anim = None, time = 0, obj_changed = chg,
      obj_has_trm = {}, mtx_has_trm = {}, mtx = (), trnode = None, bvnode = None,
      parent = None, trb_trnode = None, shape = sh, srf_rec = surface_ex lo hi None,
      wpos = [0, 0, 0, 0], mp_i = 0, mp_j = 1, mp_k = 2, sgn = [1, 1, 1],
      srf_changed = {}, bbox = ([0, 0, 0], [0, 0, 0]), cbox = ([0, 0, 0], [0, 0, 0]),
      clippers = cl, obj_arr = []\<rparr>"

definition clip_elem_ex :: rt_ELEM where
  "clip_elem_ex = \<lparr>addr = 10, data = RT_REL_MINUS_OUTER, simd = Some 2, temp = Some 2\<rparr>"

definition cylinder_ex :: "flags \<Rightarrow> unit rt_Surface" where
  "cylinder_ex chg =
     surface_node_ex TAG_CYLINDER (Cylinder 1) [-1000, -1000, -2] [1000, 1000, 2] chg
       [clip_elem_ex]"

definition sphere_ex :: "unit rt_Surface" where
  "sphere_ex =
     surface_node_ex TAG_SPHERE (Sphere 1) [-1000, -1000, -1000] [1000, 1000, 1000] {} []"

definition boxes_heap_ex :: "flags \<Rightarrow> nat \<Rightarrow> unit rt_Surface option" where
  "boxes_heap_ex chg = [1 \<mapsto> cylinder_ex chg, 2 \<mapsto> sphere_ex]"

text \<open>The bounding box the code leaves in the cylinder, and the one the specification's
  two paths give.\<close>

definition bbox_code_ex :: "flags \<Rightarrow> box option" where
  "bbox_code_ex chg =
     (case update_minmax {OPTS_ADJUST} 1000 (boxes_heap_ex chg) 1 of
        None \<Rightarrow> None
      | Some h' \<Rightarrow> map_option bbox (h' 1))"

definition bbox_spec_ex :: "bool \<Rightarrow> flags \<Rightarrow> box" where
  "bbox_spec_ex gate chg =
     bbox (spec_update_minmax gate {OPTS_ADJUST} 1000 (boxes_heap_ex chg) 1 (cylinder_ex chg))"

section \<open>Custom clipper lists (\<open>rt_Surface::add_relation\<close>)\<close>

text \<open>
  The custom clipper list of the surface is the list \<open>ptr\<close> (head first); \<open>next_free\<close>
  is the next address the arena hands out for an element. \<open>s_srf\<close> of an object is
  identified with the object, like its bound record.
\<close>

record clip_state =
  ptr :: "rt_ELEM list"
  next_free :: nat

definition new_elem :: "clip_state \<Rightarrow> int \<Rightarrow> nat option \<Rightarrow> nat option \<Rightarrow> rt_ELEM \<times> clip_state" where
  "new_elem st d sm tp =
     (\<lparr>addr = next_free st, data = d, simd = sm, temp = tp\<rparr>,
      st\<lparr>next_free := Suc (next_free st)\<rparr>)"

definition insert_head :: "rt_ELEM \<Rightarrow> clip_state \<Rightarrow> clip_state" where
  "insert_head e st = st\<lparr>ptr := e # ptr st\<rparr>"

text \<open>The search for an existing trnode element: the position of the first element
  whose \<open>temp\<close> is the bound record of the trnode \<open>tn\<close>, looked for while \<open>acc = 0\<close>;
  every other element with an object is skipped; an accumulation-leave marker met with
  \<open>acc = 0\<close> ends the search without a result; an enter marker opens a segment that is
  skipped up to its leave marker.\<close>

fun search_marker :: "nat \<Rightarrow> nat \<Rightarrow> rt_ELEM list \<Rightarrow> nat option" where
  "search_marker tn acc [] = None"
| "search_marker tn acc (x # xs) =
     (if acc = 0 \<and> temp x = Some tn then Some 0
      else if temp x \<noteq> None then map_option Suc (search_marker tn acc xs)
      else if acc = 0 \<and> data x = RT_ACCUM_LEAVE then None
      else
        (let acc1 = (if acc = 0 \<and> data x = RT_ACCUM_ENTER then 1 else acc);
             acc2 = (if acc1 = 1 \<and> data x = RT_ACCUM_LEAVE then 0 else acc1)
         in map_option Suc (search_marker tn acc2 xs)))"

text \<open>The branch for a clipper that is a surface \<open>sf\<close> at address \<open>a\<close>.\<close>

definition add_surface_elem :: "nat \<Rightarrow> ('m, 'z) rt_Surface_scheme \<Rightarrow> int \<Rightarrow> clip_state
    \<Rightarrow> clip_state" where
  "add_surface_elem a sf rel st =
     (let (elm, st1) = new_elem st rel (Some a) (Some a)
      in if trnode sf \<noteq> None \<and> trnode sf \<noteq> Some a
         then
           (case search_marker (the (trnode sf)) 0 (ptr st1) of
              None \<Rightarrow>
                (let st2 = insert_head elm st1;
                     (nxt, st3) = new_elem st2 (int (addr elm)) (trnode sf) (trnode sf)
                 in insert_head nxt st3)
            | Some i \<Rightarrow>
                st1\<lparr>ptr := take (Suc i) (ptr st1) @ elm # drop (Suc i) (ptr st1)\<rparr>)
         else insert_head elm st1)"

text \<open>\<open>add_relation\<close> over the template list \<open>lst\<close>. An element of an array is replaced
  by one new element per child, each handed to a recursive call; the recursion follows
  the object tree and is bounded here by \<open>fuel\<close> (no result when it runs out, or when a
  pointer dangles). An object that is neither array nor surface adds nothing.\<close>

function add_relation :: "nat \<Rightarrow> (nat \<Rightarrow> 'm rt_Surface option) \<Rightarrow> clip_state \<Rightarrow> rt_ELEM list
      \<Rightarrow> clip_state option"
  and add_children :: "nat \<Rightarrow> (nat \<Rightarrow> 'm rt_Surface option) \<Rightarrow> clip_state \<Rightarrow> int \<Rightarrow> nat list
      \<Rightarrow> clip_state option" where
  "add_relation fuel h st [] = Some st"
| "add_relation fuel h st (l # lst) =
     (case temp l of
        None \<Rightarrow>
          (let (elm, st1) = new_elem st (data l) None None
           in add_relation fuel h (insert_head elm st1) lst)
      | Some a \<Rightarrow>
          (case h a of
             None \<Rightarrow> None
           | Some ob \<Rightarrow>
               if RT_IS_ARRAY (tag ob)
               then
                 (case fuel of
                    0 \<Rightarrow> None
                  | Suc f \<Rightarrow>
                      (case add_children f h st (data l) (obj_arr ob) of
                         None \<Rightarrow> None
                       | Some st' \<Rightarrow> add_relation fuel h st' lst))
               else if RT_IS_SURFACE (tag ob)
               then add_relation fuel h (add_surface_elem a ob (data l) st) lst
               else add_relation fuel h st lst))"
| "add_children f h st rel [] = Some st"
| "add_children f h st rel (c # cs) =
     (let (elm, st1) = new_elem st rel None (Some c)
      in case add_relation f h st1 [elm] of
           None \<Rightarrow> None
         | Some st2 \<Rightarrow> add_children f h st2 rel cs)"
  by pat_completeness auto
termination
  by (relation "measures
        [\<lambda>x. case x of Inl (fuel, h, st, lst) \<Rightarrow> fuel | Inr (f, h, st, rel, cs) \<Rightarrow> f,
         \<lambda>x. case x of Inl (fuel, h, st, lst) \<Rightarrow> 0 | Inr (f, h, st, rel, cs) \<Rightarrow> 1,
         \<lambda>x. case x of Inl (fuel, h, st, lst) \<Rightarrow> length lst
                      | Inr (f, h, st, rel, cs) \<Rightarrow> length cs]")
    auto

text \<open>The elements the search looks at: those met while \<open>acc = 0\<close>, up to the first
  leave marker met with \<open>acc = 0\<close>. This is the current accumulation segment when the
  list starts inside one, and otherwise the elements outside all segments.\<close>

fun visible :: "nat \<Rightarrow> rt_ELEM list \<Rightarrow> rt_ELEM list" where
  "visible acc [] = []"
| "visible acc (x # xs) =
     (if temp x \<noteq> None then (if acc = 0 then x # visible acc xs else visible acc xs)
      else if acc = 0 \<and> data x = RT_ACCUM_LEAVE then []
      else
        (let acc1 = (if acc = 0 \<and> data x = RT_ACCUM_ENTER then 1 else acc);
             acc2 = (if acc1 = 1 \<and> data x = RT_ACCUM_LEAVE then 0 else acc1)
         in visible acc2 xs))"

text \<open>The trnode elements of a list: the elements that point to an array. A list has
  single markers when, from every position on, the trnode elements the search would look
  at point to different arrays.\<close>

definition array_elem :: "(nat \<Rightarrow> 'm rt_Surface option) \<Rightarrow> rt_ELEM \<Rightarrow> bool" where
  "array_elem h x =
     (case temp x of
        None \<Rightarrow> False
      | Some t \<Rightarrow> (case h t of None \<Rightarrow> False | Some ob \<Rightarrow> RT_IS_ARRAY (tag ob)))"

fun single_markers :: "(nat \<Rightarrow> 'm rt_Surface option) \<Rightarrow> rt_ELEM list \<Rightarrow> bool" where
  "single_markers h [] = True"
| "single_markers h (x # xs) =
     (distinct (map temp (filter (array_elem h) (visible 0 (x # xs)))) \<and> single_markers h xs)"

text \<open>The number of elements of the whole list that point to the array \<open>tn\<close>.\<close>

definition markers_for :: "nat \<Rightarrow> rt_ELEM list \<Rightarrow> nat" where
  "markers_for tn es = length (filter (\<lambda>x. temp x = Some tn) es)"

text \<open>An array at address 5 with a non-trivial transform and two spheres below it at
  addresses 6 and 7, whose trnode it is; the templates of a relation outside any
  accumulation segment and of an accumulation segment with one clipper.\<close>

definition clip_heap_ex :: "nat \<Rightarrow> unit rt_Surface option" where
  "clip_heap_ex =
     [5 \<mapsto> (surface_node_ex TAG_ARRAY Plane [] [] {} [])\<lparr>obj_arr := [6, 7]\<rparr>,
      6 \<mapsto> (surface_node_ex TAG_SPHERE (Sphere 1) [] [] {} [])\<lparr>trnode := Some 5\<rparr>,
      7 \<mapsto> (surface_node_ex TAG_SPHERE (Sphere 1) [] [] {} [])\<lparr>trnode := Some 5\<rparr>]"

definition template_ex :: "int \<Rightarrow> nat option \<Rightarrow> rt_ELEM" where
  "template_ex d t = \<lparr>addr = 0, data = d, simd = None, temp = t\<rparr>"

definition two_segments_ex :: "clip_state option" where
  "two_segments_ex =
     (case add_relation 1 clip_heap_ex \<lparr>ptr = [], next_free = 100\<rparr>
             [template_ex RT_REL_MINUS_OUTER (Some 6)] of
        None \<Rightarrow> None
      | Some st \<Rightarrow>
          add_relation 1 clip_heap_ex st
            [template_ex RT_ACCUM_LEAVE None, template_ex RT_REL_MINUS_OUTER (Some 7),
             template_ex RT_ACCUM_ENTER None])"

definition marker_ex :: "nat \<Rightarrow> nat \<Rightarrow> rt_ELEM" where
  "marker_ex n e = \<lparr>addr = n, data = int e, simd = Some 5, temp = Some 5\<rparr>"

definition clipper_ex :: "nat \<Rightarrow> nat \<Rightarrow> rt_ELEM" where
  "clipper_ex n a = \<lparr>addr = n, data = RT_REL_MINUS_OUTER, simd = Some a, temp = Some a\<rparr>"

definition accum_ex :: "nat \<Rightarrow> int \<Rightarrow> rt_ELEM" where
  "accum_ex n d = \<lparr>addr = n, data = d, simd = None, temp = None\<rparr>"

definition clip_state_ex :: clip_state where
  "clip_state_ex = \<lparr>ptr = [marker_ex 101 100, clipper_ex 100 6], next_free = 102\<rparr>"

section \<open>Lemmas about the object update\<close>

lemma count_eq_distinct:
  "distinct vals \<Longrightarrow> count_eq vals v =
     (if v ! RT_X \<in> set vals then 1 else 0) + (if v ! RT_Y \<in> set vals then 1 else 0)
       + (if v ! RT_Z \<in> set vals then 1 else 0)"
  by (induction vals) auto

lemma count_scl: "(count_eq scl_values (scl t) = 3) = trivial_scale t"
proof -
  have d: "distinct scl_values" by (simp add: scl_values_def)
  show ?thesis
    unfolding count_eq_distinct [OF d] trivial_scale_def
    by (simp add: scl_values_def)
qed

lemma count_rot: "(count_eq rot_values (rot t) = 3) = trivial_rotation t"
proof -
  have d: "distinct rot_values" by (simp add: rot_values_def)
  show ?thesis
    unfolding count_eq_distinct [OF d] trivial_rotation_def
    by (simp add: rot_values_def)
qed

lemma own_flags_char:
  "own_transform_flags opts t =
     (if OPTS_FSCALE \<in> opts
      then (if trivial_scale t then {} else {FLAG_SCL}) \<union> (if trivial_rotation t then {} else {FLAG_ROT})
      else (if trivial_transform t then {} else {FLAG_SCL, FLAG_ROT}))"
  by (auto simp: own_transform_flags_def Let_def count_scl count_rot trivial_transform_def)

lemma own_flags_empty: "(own_transform_flags opts t = {}) = trivial_transform t"
  by (auto simp: own_flags_char trivial_transform_def)

lemma search_trnode_chain:
  "anc_chain h p as \<Longrightarrow> search_trnode h p = Some (first_has_trm h as)"
proof (induction as arbitrary: p)
  case Nil
  then show ?case by (subst search_trnode.simps) simp
next
  case (Cons a as)
  then show ?case
    by (subst search_trnode.simps) (auto split: option.splits)
qed

lemma anc_chain_upd:
  "this \<notin> set as \<Longrightarrow> anc_chain (h(this \<mapsto> x)) p as = anc_chain h p as"
  by (induction as arbitrary: p) (auto split: option.splits)

lemma first_has_trm_upd:
  "this \<notin> set as \<Longrightarrow> first_has_trm (h(this \<mapsto> x)) as = first_has_trm h as"
  by (induction as) (auto split: option.splits)

lemma first_has_trm_mem:
  "first_has_trm h as = Some a \<Longrightarrow> a \<in> set as"
  by (induction as) (auto split: option.splits if_splits)

lemma fire_anim_fst: "fst (fire_anim this t ob lg) = fst (fire_anim this t ob [])"
  by (auto simp: fire_anim_def Let_def split: option.splits)

lemma Object_update_eq:
  assumes "heap s this = Some ob" "anc_chain (heap s) (parent ob) as" "this \<notin> set as"
  shows "Object_update G opts this t m fl s =
     Some (s\<lparr>heap := (heap s)(this \<mapsto>
               object_after G opts this t m fl
                 (mtx (the (heap s (the (first_has_trm (heap s) as)))))
                 (first_has_trm (heap s) as) ob),
             anim_log := snd (fire_anim this t ob (anim_log s))\<rparr>)"
proof -
  obtain trm1 lg1 where fa: "fire_anim this t ob (anim_log s) = (trm1, lg1)"
    by (cases "fire_anim this t ob (anim_log s)")
  have t1: "fst (fire_anim this t ob []) = trm1"
    using fire_anim_fst [of this t ob "anim_log s"] fa by simp
  have ne: "\<And>a. first_has_trm (heap s) as = Some a \<Longrightarrow> a \<noteq> this"
    using first_has_trm_mem assms(3) by fastforce
  have sr: "\<And>x. search_trnode ((heap s)(this \<mapsto> x)) (parent ob)
      = Some (first_has_trm (heap s) as)"
    using search_trnode_chain [of "(heap s)(this \<mapsto> x)" "parent ob" as for x]
      assms(2,3) by (simp add: anc_chain_upd first_has_trm_upd)
  show ?thesis
  proof (cases "first_has_trm (heap s) as")
    case None
    then show ?thesis
      using assms(1)
      by (simp add: Object_update_def fa t1 Let_def object_after_def object_matrix_def sr
          new_mtx_def new_trnode_def changed_flags_def)
  next
    case (Some a)
    then have "a \<noteq> this" using ne by simp
    with Some show ?thesis
      using assms(1)
      by (simp add: Object_update_def fa t1 Let_def object_after_def object_matrix_def sr
          new_mtx_def new_trnode_def changed_flags_def)
  qed
qed


lemma object_after_sel:
  "time (object_after G opts this t m fl tmx tn ob) = t"
  "parent (object_after G opts this t m fl tmx tn ob) = parent ob"
  "tag (object_after G opts this t m fl tmx tn ob) = tag ob"
  "f_anim (object_after G opts this t m fl tmx tn ob) = f_anim ob"
  "bvnode (object_after G opts this t m fl tmx tn ob) = None"
  "trm (object_after G opts this t m fl tmx tn ob) = fst (fire_anim this t ob [])"
  "obj_changed (object_after G opts this t m fl tmx tn ob) = changed_flags fl ob"
  by (simp_all add: object_after_def Let_def)

lemma object_after_changed:
  "changed_flags fl ob \<noteq> {} \<Longrightarrow>
   obj_has_trm (object_after G opts this t m fl tmx tn ob)
     = own_transform_flags opts (fst (fire_anim this t ob []))"
  "changed_flags fl ob \<noteq> {} \<Longrightarrow>
   trnode (object_after G opts this t m fl tmx tn ob)
     = new_trnode opts this tn (tag ob) (own_transform_flags opts (fst (fire_anim this t ob [])))"
  by (simp_all add: object_after_def Let_def)



section \<open>Properties of the object update\<close>

subsection \<open>Updating twice at the same time\<close>




subsection \<open>The trnode after an update\<close>

text \<open>Claim C1, as the code has it. After \<open>rt_Object::update\<close> with the changed status set
  (the \<open>ARR\<close> flag passed, or an animation callback present), on a well-formed parent
  chain: the trnode is the object itself when its own transform is non-trivial;
  otherwise it is \<open>RT_NULL\<close> when no ancestor has a non-zero \<open>obj_has_trm\<close>; otherwise it
  is again the object itself when transform caching (\<open>TARRAY\<close>) is off or the object is a
  camera or light, and the nearest such ancestor in the remaining case. So the trnode is
  the object, one of its strict ancestors or \<open>RT_NULL\<close>, and never two of these at once.\<close>

theorem Object_update_trnode:
  assumes "heap s this = Some ob" and "anc_chain (heap s) (parent ob) as" and "this \<notin> set as"
    and "FLAG_ARR \<in> fl \<or> f_anim ob \<noteq> None"
  shows "\<exists>s' ob'. Object_update G opts this t m fl s = Some s' \<and> heap s' this = Some ob'
      \<and> tag ob' = tag ob \<and> trm ob' = fst (fire_anim this t ob [])
      \<and> trnode ob' =
          (if \<not> trivial_transform (trm ob') then Some this
           else case first_has_trm (heap s) as of
                  None \<Rightarrow> None
                | Some a \<Rightarrow> if OPTS_TARRAY \<notin> opts \<or> above_SURFACE_MAX (tag ob')
                            then Some this else Some a)
      \<and> (trnode ob' = Some this \<or> trnode ob' \<in> Some ` set as \<or> trnode ob' = None)
      \<and> \<not> (trnode ob' = Some this \<and> trnode ob' \<in> Some ` set as)"
proof -
  let ?tn = "first_has_trm (heap s) as"
  let ?ob1 = "object_after G opts this t m fl (mtx (the (heap s (the ?tn)))) ?tn ob"
  have chg: "changed_flags fl ob \<noteq> {}"
    using assms(4) by (auto simp: changed_flags_def)
  have mem: "\<And>a. ?tn = Some a \<Longrightarrow> a \<in> set as"
    by (rule first_has_trm_mem)
  have tn: "trnode ?ob1 =
          (if \<not> trivial_transform (trm ?ob1) then Some this
           else case ?tn of
                  None \<Rightarrow> None
                | Some a \<Rightarrow> if OPTS_TARRAY \<notin> opts \<or> above_SURFACE_MAX (tag ?ob1)
                            then Some this else Some a)"
    by (simp add: object_after_changed [OF chg] object_after_sel new_trnode_def Let_def
        own_flags_empty split: option.splits)
  have range: "trnode ?ob1 = Some this \<or> trnode ?ob1 \<in> Some ` set as \<or> trnode ?ob1 = None"
    unfolding tn using mem by (auto split: option.splits)
  have excl: "\<not> (trnode ?ob1 = Some this \<and> trnode ?ob1 \<in> Some ` set as)"
    using assms(3) by auto
  show ?thesis
    using Object_update_eq [OF assms(1-3), of G opts t m fl] tn range excl
    by (simp add: object_after_sel)
qed

lemma scene_ex_heap:
  "heap scene_ex 0 = Some (object_ex TAG_ARRAY trm_rot45 None)"
  "heap scene_ex 1 = Some (object_ex TAG_LIGHT trm_identity (Some 0))"
  by (simp_all add: scene_ex_def)

lemmas eval_defs = object_after_def fire_anim_def own_transform_flags_def scl_values_def
  rot_values_def RT_X_def RT_Y_def RT_Z_def new_mtx_def new_trnode_def changed_flags_def
  object_ex_def trm_rot45_def trm_identity_def Let_def above_SURFACE_MAX_def

lemma array_update_ex:
  "Object_update geom_ex opts 0 0 () {FLAG_OBJ, FLAG_ARR} scene_ex =
     Some (scene_ex\<lparr>heap := (heap scene_ex)(0 \<mapsto>
        (object_ex TAG_ARRAY trm_rot45 None)\<lparr>time := 0, obj_changed := {FLAG_ARR},
           obj_has_trm := (if OPTS_FSCALE \<in> opts then {FLAG_ROT} else {FLAG_SCL, FLAG_ROT}),
           mtx_has_trm := (if OPTS_FSCALE \<in> opts then {FLAG_ROT} else {FLAG_SCL, FLAG_ROT}),
           trnode := Some 0, trb_trnode := Some 0\<rparr>)\<rparr>)"
proof -
  have c: "anc_chain (heap scene_ex) (parent (object_ex TAG_ARRAY trm_rot45 None)) []"
    by (simp add: object_ex_def)
  have n: "0 \<notin> set ([]::nat list)" by simp
  show ?thesis
    unfolding Object_update_eq [OF scene_ex_heap(1) c n]
    by (simp add: eval_defs scene_ex_def)
qed

lemma update_pass_ex_eval:
  "\<exists>s arr lgt. update_pass_ex opts = Some s \<and> heap s 0 = Some arr \<and> heap s 1 = Some lgt
     \<and> trm arr = trm_rot45 \<and> trm lgt = trm_identity \<and> trnode lgt = Some 1"
proof -
  let ?arr = "(object_ex TAG_ARRAY trm_rot45 None)\<lparr>time := 0, obj_changed := {FLAG_ARR},
           obj_has_trm := (if OPTS_FSCALE \<in> opts then {FLAG_ROT} else {FLAG_SCL, FLAG_ROT}),
           mtx_has_trm := (if OPTS_FSCALE \<in> opts then {FLAG_ROT} else {FLAG_SCL, FLAG_ROT}),
           trnode := Some 0, trb_trnode := Some 0\<rparr>"
  let ?s1 = "scene_ex\<lparr>heap := (heap scene_ex)(0 \<mapsto> ?arr)\<rparr>"
  let ?lgt = "\<lambda>fl. (object_ex TAG_LIGHT trm_identity (Some 0))\<lparr>time := 0, obj_changed := {FLAG_ARR},
           mtx_has_trm := (fl \<inter> {FLAG_SCL}) \<union> (fl \<inter> {FLAG_ROT}),
           trnode := Some 1, trb_trnode := Some 1\<rparr>"
  have h: "heap ?s1 1 = Some (object_ex TAG_LIGHT trm_identity (Some 0))"
    by (simp add: scene_ex_def)
  have c: "anc_chain (heap ?s1) (parent (object_ex TAG_LIGHT trm_identity (Some 0))) [0]"
    by (simp add: object_ex_def)
  have n: "1 \<notin> set [0::nat]" by simp
  have u: "Object_update geom_ex opts 1 0 () fl ?s1 =
     Some (?s1\<lparr>heap := (heap ?s1)(1 \<mapsto> ?lgt fl)\<rparr>)"
    if "FLAG_ARR \<in> fl" for fl
    unfolding Object_update_eq [OF h c n] using that
    by (simp add: eval_defs scene_ex_def del: Int_insert_right)
  have h0: "heap ?s1 0 = Some ?arr" by simp
  have fl: "FLAG_ARR \<in> {FLAG_OBJ, FLAG_ARR} \<union> obj_has_trm ?arr \<union> obj_changed ?arr"
    by simp
  have p: "update_pass_ex opts = Some (?s1\<lparr>heap := (heap ?s1)(1 \<mapsto>
      ?lgt ({FLAG_OBJ, FLAG_ARR} \<union> obj_has_trm ?arr \<union> obj_changed ?arr))\<rparr>)"
    unfolding update_pass_ex_def array_update_ex
    by (simp only: option.case h0 u [OF fl])
  show ?thesis
    unfolding p by (simp add: object_ex_def)
qed

text \<open>After the pass over the two-object scene the light is its own trnode although its
  transform is trivial; the nearest object with a non-trivial transform is the array.\<close>

theorem trnode_of_light_counterexample:
  "light_trnode_ex {OPTS_TARRAY, OPTS_FSCALE} = Some 1
     \<and> light_spec_trnode_ex {OPTS_TARRAY, OPTS_FSCALE} = Some 0"
proof -
  obtain s arr lgt where "update_pass_ex {OPTS_TARRAY, OPTS_FSCALE} = Some s"
    "heap s 0 = Some arr" "heap s 1 = Some lgt"
    "trm arr = trm_rot45" "trm lgt = trm_identity" "trnode lgt = Some 1"
    using update_pass_ex_eval by blast
  then show ?thesis
    by (simp add: light_trnode_ex_def light_spec_trnode_ex_def
      spec_trnode_def trivial_transform_def trivial_scale_def trivial_rotation_def
      trm_rot45_def trm_identity_def RT_X_def RT_Y_def RT_Z_def)
qed

lemma scene_mid_ex_heap:
  "heap scene_mid_ex 1 = Some (object_ex TAG_LIGHT trm_identity (Some 0))"
  by (simp add: scene_mid_ex_def scene_ex_def)

lemma scene_mid_ex_chain:
  "anc_chain (heap scene_mid_ex) (parent (object_ex TAG_LIGHT trm_identity (Some 0))) [0]"
  by (simp add: scene_mid_ex_def scene_ex_def object_ex_def)

lemma scene_mid_ex_first: "first_has_trm (heap scene_mid_ex) [0] = Some 0"
  by (simp add: scene_mid_ex_def scene_ex_def object_ex_def)

lemma trivial_identity: "trivial_transform trm_identity" "trivial_scale trm_identity"
  "trivial_rotation trm_identity"
  by (simp_all add: trivial_transform_def trivial_scale_def trivial_rotation_def
      trm_identity_def RT_X_def RT_Y_def RT_Z_def)

text \<open>The light below the rotated array, with transform caching on: it is its own trnode.\<close>

theorem Object_update_trnode_witness:
  "\<exists>s' ob'. Object_update geom_ex {OPTS_TARRAY, OPTS_FSCALE} 1 0 ()
       {FLAG_OBJ, FLAG_ARR, FLAG_ROT} scene_mid_ex = Some s'
     \<and> heap s' 1 = Some ob' \<and> trnode ob' = Some 1"
proof -
  have n: "1 \<notin> set [0::nat]" by simp
  have a: "FLAG_ARR \<in> {FLAG_OBJ, FLAG_ARR, FLAG_ROT}
      \<or> f_anim (object_ex TAG_LIGHT trm_identity (Some 0)) \<noteq> None" by simp
  have tg: "tag (object_ex TAG_LIGHT trm_identity (Some 0)) = TAG_LIGHT"
    by (simp add: object_ex_def)
  have fa: "fst (fire_anim 1 0 (object_ex TAG_LIGHT trm_identity (Some 0)) []) = trm_identity"
    by (simp add: fire_anim_def object_ex_def)
  from Object_update_trnode [OF scene_mid_ex_heap scene_mid_ex_chain n a,
      of geom_ex "{OPTS_TARRAY, OPTS_FSCALE}" 0 "()"]
  obtain s' ob' where
    "Object_update geom_ex {OPTS_TARRAY, OPTS_FSCALE} 1 0 ()
       {FLAG_OBJ, FLAG_ARR, FLAG_ROT} scene_mid_ex = Some s'"
    "heap s' 1 = Some ob'" "tag ob' = TAG_LIGHT" "trm ob' = trm_identity"
    "trnode ob' =
          (if \<not> trivial_transform (trm ob') then Some 1
           else case first_has_trm (heap scene_mid_ex) [0] of
                  None \<Rightarrow> None
                | Some a \<Rightarrow> if OPTS_TARRAY \<notin> {OPTS_TARRAY, OPTS_FSCALE} \<or> above_SURFACE_MAX (tag ob')
                            then Some 1 else Some a)"
    unfolding tg fa by blast
  then show ?thesis
    by (simp add: scene_mid_ex_def scene_ex_def object_ex_def trivial_identity
        above_SURFACE_MAX_def)
qed

subsection \<open>The flag word \<open>obj_has_trm\<close>\<close>

text \<open>Claim C5, as the code has it. After \<open>rt_Object::update\<close> with the changed status set:
  with \<open>FSCALE\<close> on, \<open>SCL\<close> is set exactly for a scale component outside \<open>{-1, +1}\<close> and
  \<open>ROT\<close> exactly for a rotation component outside the listed multiples of 90 degrees;
  with \<open>FSCALE\<close> off, both flags are set as soon as the scale or the rotation is
  non-trivial, and none is set otherwise.\<close>

theorem Object_update_has_trm:
  assumes "heap s this = Some ob" and "anc_chain (heap s) (parent ob) as" and "this \<notin> set as"
    and "FLAG_ARR \<in> fl \<or> f_anim ob \<noteq> None"
  shows "\<exists>s' ob'. Object_update G opts this t m fl s = Some s' \<and> heap s' this = Some ob'
      \<and> trm ob' = fst (fire_anim this t ob [])
      \<and> obj_has_trm ob' =
          (if OPTS_FSCALE \<in> opts
           then (if trivial_scale (trm ob') then {} else {FLAG_SCL})
                  \<union> (if trivial_rotation (trm ob') then {} else {FLAG_ROT})
           else if trivial_scale (trm ob') \<and> trivial_rotation (trm ob') then {}
                else {FLAG_SCL, FLAG_ROT})"
proof -
  let ?tn = "first_has_trm (heap s) as"
  let ?ob1 = "object_after G opts this t m fl (mtx (the (heap s (the ?tn)))) ?tn ob"
  have chg: "changed_flags fl ob \<noteq> {}"
    using assms(4) by (auto simp: changed_flags_def)
  have "obj_has_trm ?ob1 =
          (if OPTS_FSCALE \<in> opts
           then (if trivial_scale (trm ?ob1) then {} else {FLAG_SCL})
                  \<union> (if trivial_rotation (trm ?ob1) then {} else {FLAG_ROT})
           else if trivial_scale (trm ?ob1) \<and> trivial_rotation (trm ?ob1) then {}
                else {FLAG_SCL, FLAG_ROT})"
    by (simp add: object_after_changed [OF chg] object_after_sel own_flags_char
        trivial_transform_def)
  then show ?thesis
    using Object_update_eq [OF assms(1-3), of G opts t m fl]
    by (simp add: object_after_sel)
qed

text \<open>The array rotated by 45 degrees with \<open>FSCALE\<close> off: both flags.\<close>

theorem Object_update_has_trm_witness:
  "\<exists>s' ob'. Object_update geom_ex {} 0 0 () {FLAG_OBJ, FLAG_ARR} scene_ex = Some s'
     \<and> heap s' 0 = Some ob' \<and> obj_has_trm ob' = {FLAG_SCL, FLAG_ROT}"
proof -
  have c: "anc_chain (heap scene_ex) (parent (object_ex TAG_ARRAY trm_rot45 None)) []"
    by (simp add: object_ex_def)
  have n: "0 \<notin> set ([]::nat list)" by simp
  have a: "FLAG_ARR \<in> {FLAG_OBJ, FLAG_ARR}
      \<or> f_anim (object_ex TAG_ARRAY trm_rot45 None) \<noteq> None" by simp
  have fa: "fst (fire_anim 0 0 (object_ex TAG_ARRAY trm_rot45 None) []) = trm_rot45"
    by (simp add: fire_anim_def object_ex_def)
  have tr: "\<not> trivial_rotation trm_rot45" "trivial_scale trm_rot45"
    by (simp_all add: trivial_rotation_def trivial_scale_def trm_rot45_def RT_X_def RT_Y_def RT_Z_def)
  from Object_update_has_trm [OF scene_ex_heap(1) c n a, of geom_ex "{}" 0 "()"]
  show ?thesis
    unfolding fa by (auto simp: tr)
qed

text \<open>With \<open>FSCALE\<close> off the rotated array, whose scale is trivial, gets \<open>SCL\<close> too; the
  specification's flag word holds \<open>ROT\<close> only.\<close>

theorem has_trm_rotation_counterexample:
  "array_has_trm_ex {} = Some {FLAG_SCL, FLAG_ROT}
     \<and> spec_transform_flags {} trm_rot45 = {FLAG_ROT}"
  by (simp add: array_has_trm_ex_def array_update_ex spec_transform_flags_def
      trivial_rotation_def trivial_scale_def trm_rot45_def RT_X_def RT_Y_def RT_Z_def)

subsection \<open>The bvnode pointer\<close>

text \<open>Claim C10. \<open>update_bvnode(b, RT_TRUE)\<close> sets \<open>bvnode\<close> to \<open>b\<close> only when \<open>b\<close> is not the
  object itself and no bvnode is set, so a binding is never overwritten;
  \<open>update_bvnode(b, RT_FALSE)\<close> resets it only when it equals \<open>b\<close> (and \<open>b\<close> is not the
  object); no other field changes; cameras and lights ignore the call; and
  \<open>rt_Object::update\<close> returns with \<open>bvnode\<close> reset to \<open>RT_NULL\<close>.\<close>

theorem update_bvnode_binding:
  assumes "heap s this = Some ob" and "anc_chain (heap s) (parent ob) as" and "this \<notin> set as"
  shows "bvnode (Object_update_bvnode self b True x)
           = (if b \<noteq> Some self \<and> bvnode x = None then b else bvnode x)
      \<and> bvnode (Object_update_bvnode self b False x)
           = (if b \<noteq> Some self \<and> bvnode x = b then None else bvnode x)
      \<and> Object_update_bvnode self b mode x = x\<lparr>bvnode := bvnode (Object_update_bvnode self b mode x)\<rparr>
      \<and> Camera_update_bvnode self b mode x = x
      \<and> Light_update_bvnode self b mode x = x
      \<and> (\<exists>s' ob'. Object_update G opts this t m fl s = Some s' \<and> heap s' this = Some ob'
            \<and> bvnode ob' = None)"
proof -
  have "\<exists>s' ob'. Object_update G opts this t m fl s = Some s' \<and> heap s' this = Some ob'
            \<and> bvnode ob' = None"
    using Object_update_eq [OF assms, of G opts t m fl] by (simp add: object_after_sel)
  then show ?thesis
    by (simp add: Object_update_bvnode_def Camera_update_bvnode_def Light_update_bvnode_def Let_def)
qed

text \<open>Binding and untying a sphere, a camera left alone, and the update of a bound sphere.\<close>

theorem update_bvnode_binding_witness:
  "bvnode (Object_update_bvnode 1 (Some 0) True (object_ex TAG_SPHERE trm_identity (Some 0))) = Some 0
   \<and> bvnode (Object_update_bvnode 1 (Some 0) False
        ((object_ex TAG_SPHERE trm_identity (Some 0))\<lparr>bvnode := Some 0\<rparr>)) = None
   \<and> Camera_update_bvnode 1 (Some 0) True (camera_ex 0 0) = camera_ex 0 0
   \<and> (\<exists>s' ob'. Object_update geom_ex {} 1 0 () {FLAG_OBJ} scene_bound_ex = Some s'
         \<and> heap s' 1 = Some ob' \<and> bvnode ob' = None)"
proof -
  have h: "heap scene_bound_ex 1 = Some ((object_ex TAG_SPHERE trm_identity (Some 0))\<lparr>bvnode := Some 0\<rparr>)"
    by (simp add: scene_bound_ex_def)
  have c: "anc_chain (heap scene_bound_ex)
     (parent ((object_ex TAG_SPHERE trm_identity (Some 0))\<lparr>bvnode := Some 0\<rparr>)) [0]"
    by (simp add: scene_bound_ex_def object_ex_def)
  have n: "1 \<notin> set [0::nat]" by simp
  have b1: "bvnode (object_ex TAG_SPHERE trm_identity (Some 0)) = None"
    by (simp add: object_ex_def)
  note w1 = update_bvnode_binding [OF h c n, of 1 "Some 0" "object_ex TAG_SPHERE trm_identity (Some 0)"
      True geom_ex "{}" 0 "()" "{FLAG_OBJ}"]
  note w2 = update_bvnode_binding [OF h c n, of 1 "Some 0"
      "(object_ex TAG_SPHERE trm_identity (Some 0))\<lparr>bvnode := Some 0\<rparr>"
      True geom_ex "{}" 0 "()" "{FLAG_OBJ}"]
  show ?thesis
    using w1 w2 by (simp add: b1 Camera_update_bvnode_def)
qed


subsection \<open>Camera rotation\<close>




section \<open>Properties of the construction\<close>












subsection \<open>Null pointers in the scene records\<close>



subsection \<open>The bounding polyhedron of an unbounded surface\<close>




section \<open>Properties of the boxes\<close>

lemma shrink_min: "i < length rad \<Longrightarrow>
   (if rad ! i > r then rad[i := r] else rad) = rad[i := min (rad ! i) (r::real)]"
  by (simp add: min_def not_less)

lemma sphere_step_eq:
  "length rad = 3 \<Longrightarrow> k < 3 \<Longrightarrow> sphere_step xrad smin smax k rad =
     (let r = sphere_section xrad smin smax k
      in rad[(k + 1) mod 3 := min (rad ! ((k + 1) mod 3)) r,
             (k + 2) mod 3 := min (rad ! ((k + 2) mod 3)) r])"
proof -
  assume l: "length rad = 3" and k: "k < 3"
  have ne: "(k + 1) mod 3 \<noteq> (k + 2) mod 3" using k by presburger
  have i: "(k + 1) mod 3 < length rad" "(k + 2) mod 3 < length rad" using l by simp_all
  show ?thesis
    unfolding sphere_step_def Let_def
    apply (simp only: shrink_min i length_list_update)
    apply (simp only: nth_list_update_neq [OF ne])
    done
qed

lemma sphere_radii_eq:
  "sphere_radii xrad smin smax =
     [eff_radius xrad smin smax 0, eff_radius xrad smin smax 1, eff_radius xrad smin smax 2]"
proof -
  let ?a = "\<bar>xrad\<bar>"
  let ?r = "sphere_section xrad smin smax"
  have s0: "sphere_step xrad smin smax 0 [?a, ?a, ?a] = [?a, min ?a (?r 0), min ?a (?r 0)]"
    by (simp add: sphere_step_eq Let_def numeral_2_eq_2)
  have s1: "sphere_step xrad smin smax 1 [?a, min ?a (?r 0), min ?a (?r 0)]
      = [min ?a (?r 1), min ?a (?r 0), min (min ?a (?r 0)) (?r 1)]"
    by (simp add: sphere_step_eq Let_def numeral_2_eq_2)
  have s2: "sphere_step xrad smin smax 2 [min ?a (?r 1), min ?a (?r 0), min (min ?a (?r 0)) (?r 1)]
      = [min (min ?a (?r 1)) (?r 2), min (min ?a (?r 0)) (?r 2), min (min ?a (?r 0)) (?r 1)]"
    by (simp add: sphere_step_eq Let_def)
  have m: "((0::nat) + 1) mod 3 = 1" "((0::nat) + 2) mod 3 = 2"
    "((1::nat) + 1) mod 3 = 2" "((1::nat) + 2) mod 3 = 0"
    "((2::nat) + 1) mod 3 = 0" "((2::nat) + 2) mod 3 = 1" by simp_all
  have e0: "eff_radius xrad smin smax 0 = min (min ?a (?r 1)) (?r 2)"
    unfolding eff_radius_def m ..
  have e1: "eff_radius xrad smin smax 1 = min (min ?a (?r 0)) (?r 2)"
    unfolding eff_radius_def m by (metis min.assoc min.commute)
  have e2: "eff_radius xrad smin smax 2 = min (min ?a (?r 0)) (?r 1)"
    unfolding eff_radius_def m ..
  have "sphere_radii xrad smin smax =
      sphere_step xrad smin smax 2 (sphere_step xrad smin smax 1
        (sphere_step xrad smin smax 0 [?a, ?a, ?a]))"
    by (simp add: sphere_radii_def)
  then show ?thesis
    unfolding s0 s1 s2 e0 e1 e2 .
qed

lemma cut_lo: "(if (if a then - i else s) \<le> - r then - i else (if a then - i else s))
    = (if a \<or> s \<le> - r then - i else (s::real))"
  by auto

lemma cut_hi: "(if (if a then i else s) \<ge> r then i else (if a then i else s))
    = (if a \<or> s \<ge> r then i else (s::real))"
  by auto

lemma nth3: "[a, b, c] ! RT_I = a" "[a, b, c] ! RT_J = b" "[a, b, c] ! RT_K = c"
  by (simp_all add: RT_I_def RT_J_def RT_K_def)

subsection \<open>The boxes of a sphere\<close>

text \<open>Claim C3, as the code has it. For every axis \<open>k\<close>, \<open>top\<close> is the distance from 0 to
  the nearest point of the source interval (\<open>smin[k]\<close> when it is positive, \<open>-smax[k]\<close>
  when \<open>smax[k]\<close> is negative, 0 otherwise) and \<open>sqrt(max(r^2 - top^2, 0))\<close> is the radius
  of the section there; the radius kept for an axis is the smallest of \<open>|r|\<close> and the
  sections at the two other axes. Each bounding bound is the source bound clamped to
  plus-or-minus that radius. A clipping bound becomes the infinity of its side when the
  source bound reaches or exceeds that radius, and also when the source bound lies
  strictly inside the clipper box of the scene record; otherwise it is the source bound.\<close>

theorem Sphere_adjust_minmax_boxes:
  "Sphere_adjust_minmax infty xrad sr smin smax True True =
     (Some (map (\<lambda>i. max (smin ! i) (- eff_radius xrad smin smax i)) [0, 1, 2],
            map (\<lambda>i. min (smax ! i) (eff_radius xrad smin smax i)) [0, 1, 2]),
      Some (map (\<lambda>i. if smin ! i > srf_min sr ! i \<or> smin ! i \<le> - eff_radius xrad smin smax i
                       then - infty else smin ! i) [0, 1, 2],
            map (\<lambda>i. if smax ! i < srf_max sr ! i \<or> smax ! i \<ge> eff_radius xrad smin smax i
                       then infty else smax ! i) [0, 1, 2]))
   \<and> eff_radius xrad smin smax i =
       min (min \<bar>xrad\<bar> (sphere_section xrad smin smax ((i + 1) mod 3)))
           (sphere_section xrad smin smax ((i + 2) mod 3))
   \<and> sphere_section xrad smin smax k =
       sqrt (max (xrad * xrad - sphere_top smin smax k * sphere_top smin smax k) 0)
   \<and> sphere_top smin smax k =
       (if smin ! k > 0 then smin ! k else if smax ! k < 0 then - smax ! k else 0)"
proof -
  have "Sphere_adjust_minmax infty xrad sr smin smax True True =
     (Some (map (\<lambda>i. max (smin ! i) (- eff_radius xrad smin smax i)) [0, 1, 2],
            map (\<lambda>i. min (smax ! i) (eff_radius xrad smin smax i)) [0, 1, 2]),
      Some (map (\<lambda>i. if smin ! i > srf_min sr ! i \<or> smin ! i \<le> - eff_radius xrad smin smax i
                       then - infty else smin ! i) [0, 1, 2],
            map (\<lambda>i. if smax ! i < srf_max sr ! i \<or> smax ! i \<ge> eff_radius xrad smin smax i
                       then infty else smax ! i) [0, 1, 2]))"
    unfolding Sphere_adjust_minmax_def Surface_adjust_minmax_def sphere_radii_eq Let_def
      bbox_clamp_def cbox_cut_def
    apply (simp only: if_True option.case fst_conv snd_conv nth3 cut_lo cut_hi)
    apply (simp only: RT_I_def RT_J_def RT_K_def list.map)
    done
  then show ?thesis
    by (simp only: eff_radius_def sphere_section_def sphere_top_def simp_thms)
qed

lemma less3: "(k::nat) < 3 \<Longrightarrow> k = 0 \<or> k = 1 \<or> k = 2"
  by auto

lemma sphere_ex_sections:
  "k < 3 \<Longrightarrow> sphere_section 1 [-2, -2, - (1/2)] [2, 2, 2] k = 1"
  by (drule less3) (auto simp: sphere_section_def sphere_top_def)

lemma sphere_ex_eff:
  "eff_radius 1 [-2, -2, - (1/2)] [2, 2, 2] i = 1"
  by (simp add: eff_radius_def sphere_ex_sections)

lemma spec_sphere_ex_top:
  "k < 3 \<Longrightarrow> spec_sphere_top 1 [-2, -2, - (1/2)] [2, 2, 2] k = 1"
  by (drule less3) (auto simp: spec_sphere_top_def)

lemma spec_sphere_ex_eff:
  "spec_eff_radius 1 [-2, -2, - (1/2)] [2, 2, 2] i = 0"
  by (simp add: spec_eff_radius_def spec_sphere_section_def spec_sphere_ex_top)

text \<open>The unit sphere with the source box \<open>[-2, 2] x [-2, 2] x [-1/2, 2]\<close>.\<close>

theorem Sphere_adjust_minmax_boxes_witness:
  "Sphere_adjust_minmax 1000 1 (surface_ex [-2, -2, - (1/2)] [2, 2, 2] None)
       [-2, -2, - (1/2)] [2, 2, 2] True True
     = (Some ([-1, -1, - (1/2)], [1, 1, 1]), Some ([-1000, -1000, - (1/2)], [1000, 1000, 1000]))"
  using Sphere_adjust_minmax_boxes [of 1000 1 "surface_ex [-2, -2, - (1/2)] [2, 2, 2] None"
      "[-2, -2, - (1/2)]" "[2, 2, 2]" 0 0]
  by (simp add: sphere_ex_eff surface_ex_def)

text \<open>For the same source box \<open>top\<close> is 0 on the axis \<open>K\<close>, not the larger absolute
  value 2 cut to 1, so the bounding box keeps the full radius 1 on \<open>I\<close> and \<open>J\<close> where
  the specification's rule gives 0; and with an unbounded clipper box in the record the
  clipping bound on \<open>K\<close> is dropped at \<open>-1/2\<close>, inside the radius.\<close>

theorem sphere_top_counterexample:
  "fst (Sphere_adjust_minmax 1000 1 (surface_ex [-1000, -1000, -1000] [1000, 1000, 1000] None)
       [-2, -2, - (1/2)] [2, 2, 2] True True) = Some ([-1, -1, - (1/2)], [1, 1, 1])
   \<and> snd (Sphere_adjust_minmax 1000 1 (surface_ex [-1000, -1000, -1000] [1000, 1000, 1000] None)
       [-2, -2, - (1/2)] [2, 2, 2] True True) = Some ([-1000, -1000, -1000], [1000, 1000, 1000])
   \<and> sphere_top [-2, -2, - (1/2)] [2, 2, 2] 2 = 0
   \<and> spec_sphere_top 1 [-2, -2, - (1/2)] [2, 2, 2] 2 = 1
   \<and> eff_radius 1 [-2, -2, - (1/2)] [2, 2, 2] 0 = 1
   \<and> spec_eff_radius 1 [-2, -2, - (1/2)] [2, 2, 2] 0 = 0"
proof -
  have a: "Sphere_adjust_minmax 1000 1 (surface_ex [-1000, -1000, -1000] [1000, 1000, 1000] None)
       [-2, -2, - (1/2)] [2, 2, 2] True True
     = (Some ([-1, -1, - (1/2)], [1, 1, 1]), Some ([-1000, -1000, -1000], [1000, 1000, 1000]))"
    unfolding Sphere_adjust_minmax_def Surface_adjust_minmax_def sphere_radii_eq Let_def
      bbox_clamp_def cbox_cut_def sphere_ex_eff
    by (simp add: surface_ex_def RT_I_def RT_J_def RT_K_def)
  have b: "sphere_top [-2, -2, - (1/2)] [2, 2, 2] 2 = 0"
    by (simp add: sphere_top_def)
  have c: "spec_sphere_top 1 [-2, -2, - (1/2)] [2, 2, 2] 2 = 1"
    by (simp add: spec_sphere_ex_top)
  have d: "spec_eff_radius 1 [-2, -2, - (1/2)] [2, 2, 2] 0 = 0"
    by (rule spec_sphere_ex_eff)
  show ?thesis
    by (simp only: a b c d sphere_ex_eff fst_conv snd_conv simp_thms)
qed

lemma adjust_minmax_shape:
  "\<exists>b c. adjust_minmax infty sh sr smin smax True True = (Some b, Some c)"
  "\<exists>b. adjust_minmax infty sh sr smin smax True False = (Some b, None)"
  by (cases sh; simp add: adjust_minmax_def Plane_adjust_minmax_def Cylinder_adjust_minmax_def
      Sphere_adjust_minmax_def Cone_adjust_minmax_def Paraboloid_adjust_minmax_def
      Hyperboloid_adjust_minmax_def Surface_adjust_minmax_def Let_def)+

lemma recalc_init_both:
  "recalc_minmax infty this sf None True (Some p) =
     Some (Some (direct_minmax infty this sf (the (fst (adjust_minmax infty (shape sf) (srf_rec sf)
               (srf_min (srf_rec sf)) (srf_max (srf_rec sf)) True True)))),
           Some (direct_minmax infty this sf (the (snd (adjust_minmax infty (shape sf) (srf_rec sf)
               (srf_min (srf_rec sf)) (srf_max (srf_rec sf)) True True)))))"
proof -
  obtain b c where "adjust_minmax infty (shape sf) (srf_rec sf)
      (srf_min (srf_rec sf)) (srf_max (srf_rec sf)) True True = (Some b, Some c)"
    using adjust_minmax_shape(1) by blast
  then show ?thesis by (simp add: recalc_minmax_def)
qed

lemma recalc_init_bbox:
  "\<exists>c. recalc_minmax infty this sf None True None =
     Some (Some (direct_minmax infty this sf (the (fst (adjust_minmax infty (shape sf) (srf_rec sf)
               (srf_min (srf_rec sf)) (srf_max (srf_rec sf)) True False)))), c)"
proof -
  obtain b where "adjust_minmax infty (shape sf) (srf_rec sf)
      (srf_min (srf_rec sf)) (srf_max (srf_rec sf)) True False = (Some b, None)"
    using adjust_minmax_shape(2) by blast
  then show ?thesis by (simp add: recalc_minmax_def)
qed

lemma recalc_accum:
  "\<exists>c'. recalc_minmax infty a ob (Some bb) False (Some c) = Some (None, Some c')"
proof -
  obtain l where "adjust_minmax infty (shape ob) (srf_rec ob)
      (fst (invert_minmax infty a ob bb)) (snd (invert_minmax infty a ob bb)) True False
        = (Some l, None)"
    using adjust_minmax_shape(2) by blast
  then show ?thesis by (simp add: recalc_minmax_def Let_def)
qed

lemma recalc_apply:
  "\<exists>b' c'. recalc_minmax infty this sf (Some ca) True (Some p) = Some (Some b', Some c')"
proof -
  let ?t = "invert_minmax infty this sf ca"
  obtain b c where "adjust_minmax infty (shape sf) (srf_rec sf)
      (vec3_max (fst ?t) (srf_min (srf_rec sf))) (vec3_min (snd ?t) (srf_max (srf_rec sf)))
      True True = (Some b, Some c)"
    using adjust_minmax_shape(1) by blast
  then show ?thesis by (simp add: recalc_minmax_def Let_def)
qed

lemma markers_before_Cons:
  "markers_before (e # es) (Suc n) = (if temp e = None then 1 else 0) + markers_before es n"
  by (simp add: markers_before_def)

lemma spec_contributor_Suc:
  "spec_contributor h trn k (e # es) (Suc n)
     = spec_contributor h trn (if temp e = None then Suc k else k) es n"
  by (simp add: spec_contributor_def markers_before_Cons split: option.splits)

lemma spec_contributors_Cons:
  "spec_contributors h trn k (e # es) =
     (if spec_contributor h trn k (e # es) 0 then [e] else [])
       @ spec_contributors h trn (if temp e = None then Suc k else k) es"
proof -
  have u: "[0..<length (e # es)] = 0 # map Suc [0..<length es]"
    by (simp add: upt_conv_Cons map_Suc_upt del: upt_Suc)
  show ?thesis
    unfolding spec_contributors_def u
    by (simp add: filter_map comp_def spec_contributor_Suc del: upt_Suc)
qed

lemma spec_contributor_0:
  "spec_contributor h trn k (e # es) 0 =
     (case temp e of None \<Rightarrow> False
      | Some a \<Rightarrow> (case h a of None \<Rightarrow> False
          | Some ob \<Rightarrow> RT_IS_SURFACE (tag ob) \<and> tag ob \<noteq> TAG_PLANE \<and> trnode ob = trn
                 \<and> data e = RT_REL_MINUS_OUTER \<and> even k))"
  by (simp add: spec_contributor_def markers_before_def split: option.splits)

lemma skipped_iff:
  "RT_IS_ARRAY (tag ob) \<or> RT_IS_SURFACE (tag ob) \<Longrightarrow>
   clipper_skipped (k mod 2) trn e ob =
     (\<not> (RT_IS_SURFACE (tag ob) \<and> tag ob \<noteq> TAG_PLANE \<and> trnode ob = trn
                 \<and> data e = RT_REL_MINUS_OUTER \<and> even k))"
  by (auto simp: clipper_skipped_def RT_IS_ARRAY_def RT_IS_SURFACE_def even_iff_mod_2_eq_zero)

lemma toggle: "Suc 0 - k mod 2 = Suc k mod (2::nat)"
  by presburger

lemma changed_loop_spec:
  "clippers_wf h es \<Longrightarrow>
   changed_loop h trn es (k mod 2) ch =
     Some (fold (\<lambda>e ch. ch \<union> obj_changed (clipper_object h e)) (spec_contributors h trn k es) ch)"
proof (induction es arbitrary: k ch)
  case Nil
  then show ?case by (simp add: spec_contributors_def)
next
  case (Cons e es)
  have wf: "clippers_wf h es" using Cons.prems by (simp add: clippers_wf_def)
  show ?case
  proof (cases "temp e")
    case None
    then show ?thesis
      using Cons.IH [OF wf, of "Suc k" ch]
      by (simp add: toggle spec_contributors_Cons spec_contributor_0)
  next
    case (Some a)
    then obtain ob where ob: "h a = Some ob" "RT_IS_ARRAY (tag ob) \<or> RT_IS_SURFACE (tag ob)"
      using Cons.prems by (auto simp: clippers_wf_def split: option.splits)
    have sk: "spec_contributor h trn k (e # es) 0 = (\<not> clipper_skipped (k mod 2) trn e ob)"
      by (auto simp: spec_contributor_0 Some ob skipped_iff [OF ob(2)])
    show ?thesis
      by (cases "clipper_skipped (k mod 2) trn e ob")
        (simp_all add: Some ob Cons.IH [OF wf, of k] spec_contributors_Cons sk
          clipper_object_def)
  qed
qed

lemma accum_loop_spec:
  "clippers_wf h es \<Longrightarrow>
   accum_loop infty h trn bb es (k mod 2) c =
     Some (fold (spec_accumulate infty h bb) (spec_contributors h trn k es) c)"
proof (induction es arbitrary: k c)
  case Nil
  then show ?case by (simp add: spec_contributors_def)
next
  case (Cons e es)
  have wf: "clippers_wf h es" using Cons.prems by (simp add: clippers_wf_def)
  show ?case
  proof (cases "temp e")
    case None
    then show ?thesis
      using Cons.IH [OF wf, of "Suc k" c]
      by (simp add: toggle spec_contributors_Cons spec_contributor_0)
  next
    case (Some a)
    then obtain ob where ob: "h a = Some ob" "RT_IS_ARRAY (tag ob) \<or> RT_IS_SURFACE (tag ob)"
      using Cons.prems by (auto simp: clippers_wf_def split: option.splits)
    obtain c' where c': "recalc_minmax infty a ob (Some bb) False (Some c) = Some (None, Some c')"
      using recalc_accum by blast
    have sa: "spec_accumulate infty h bb e c = c'"
      by (simp add: spec_accumulate_def clipper_object_def Some ob c')
    have sk: "spec_contributor h trn k (e # es) 0 = (\<not> clipper_skipped (k mod 2) trn e ob)"
      by (auto simp: spec_contributor_0 Some ob skipped_iff [OF ob(2)])
    show ?thesis
      by (cases "clipper_skipped (k mod 2) trn e ob")
        (simp_all add: Some ob Cons.IH [OF wf, of k] spec_contributors_Cons sk c' sa)
  qed
qed

lemma minmax_ignores:
  "direct_minmax infty this (sf\<lparr>srf_changed := x\<rparr>) = direct_minmax infty this sf"
  "direct_minmax infty this (sf\<lparr>bbox := y\<rparr>) = direct_minmax infty this sf"
  "direct_minmax infty this (sf\<lparr>cbox := y\<rparr>) = direct_minmax infty this sf"
  "invert_minmax infty this (sf\<lparr>srf_changed := x\<rparr>) = invert_minmax infty this sf"
  "invert_minmax infty this (sf\<lparr>bbox := y\<rparr>) = invert_minmax infty this sf"
  "invert_minmax infty this (sf\<lparr>cbox := y\<rparr>) = invert_minmax infty this sf"
  by (simp_all add: direct_minmax_def invert_minmax_def pps_of_def fun_eq_iff Let_def
      split del: if_split cong: if_cong)

lemma recalc_ignores:
  "recalc_minmax infty this (sf\<lparr>srf_changed := x\<rparr>) s w c = recalc_minmax infty this sf s w c"
  "recalc_minmax infty this (sf\<lparr>bbox := y\<rparr>) s w c = recalc_minmax infty this sf s w c"
  "recalc_minmax infty this (sf\<lparr>cbox := y\<rparr>) s w c = recalc_minmax infty this sf s w c"
  unfolding recalc_minmax_def minmax_ignores
  by (simp_all split del: if_split cong: option.case_cong prod.case_cong if_cong)

subsection \<open>The two paths of \<open>update_minmax\<close>\<close>

text \<open>Claim C2, as the code has it. When the surface has no custom clippers, or is its
  own trnode, or \<open>ADJUST\<close> is off, \<open>update_minmax\<close> computes the bounding and the
  clipping box from \<open>adjust_minmax\<close> on the clipper box of the scene record. Otherwise
  the clippers that count are the elements of the custom clipper list outside the
  accumulation segments that point to a surface other than a plane with the same trnode
  and carry \<open>MINUS_OUTER\<close>; when neither the surface nor any of them has changed the
  boxes are left as they are; else the bounding box is first computed from the shape
  alone, the clipping box is set to \<open>[-RT_INF, +RT_INF]\<close>, each of those clippers in
  turn accumulates its adjustment into it, and both boxes are recomputed from the
  accumulated box.\<close>

theorem update_minmax_paths:
  assumes "h this = Some sf" and "clippers_wf h (clippers sf)"
  shows "update_minmax opts infty h this
           = Some (h(this \<mapsto> spec_update_minmax True opts infty h this sf))"
proof (cases "clippers sf = [] \<or> trnode sf = Some this \<or> OPTS_ADJUST \<notin> opts")
  case True
  obtain b c where a: "adjust_minmax infty (shape sf) (srf_rec sf)
      (srf_min (srf_rec sf)) (srf_max (srf_rec sf)) True True = (Some b, Some c)"
    using adjust_minmax_shape(1) by blast
  have r: "recalc_minmax infty this sf None True (Some (cbox sf)) =
      Some (Some (direct_minmax infty this sf b), Some (direct_minmax infty this sf c))"
    by (simp add: recalc_init_both a)
  have "update_minmax opts infty h this =
      Some (h(this \<mapsto> sf\<lparr>srf_changed := obj_changed sf,
             bbox := direct_minmax infty this sf b, cbox := direct_minmax infty this sf c\<rparr>))"
    using True assms(1) by (simp add: update_minmax_def Let_def recalc_ignores r)
  moreover have "spec_update_minmax True opts infty h this sf =
      sf\<lparr>srf_changed := obj_changed sf,
         bbox := direct_minmax infty this sf b, cbox := direct_minmax infty this sf c\<rparr>"
    using True by (simp add: spec_update_minmax_def a)
  ultimately show ?thesis by simp
next
  case False
  let ?cs = "spec_contributors h (trnode sf) 0 (clippers sf)"
  let ?ch = "fold (\<lambda>e ch. ch \<union> obj_changed (clipper_object h e)) ?cs (obj_changed sf)"
  have cl: "changed_loop h (trnode sf) (clippers sf) 0 (obj_changed sf) = Some ?ch"
    using changed_loop_spec [OF assms(2), of "trnode sf" 0 "obj_changed sf"] by simp
  show ?thesis
  proof (cases "?ch = {}")
    case True
    have "update_minmax opts infty h this = Some (h(this \<mapsto> sf\<lparr>srf_changed := {}\<rparr>))"
      using False True assms(1) by (simp add: update_minmax_def Let_def cl)
    moreover have "spec_update_minmax True opts infty h this sf = sf\<lparr>srf_changed := {}\<rparr>"
      using False True by (simp add: spec_update_minmax_def Let_def)
    ultimately show ?thesis by simp
  next
    case ne: False
    obtain b where a: "adjust_minmax infty (shape sf) (srf_rec sf)
        (srf_min (srf_rec sf)) (srf_max (srf_rec sf)) True False = (Some b, None)"
      using adjust_minmax_shape(2) by blast
    let ?bb = "direct_minmax infty this sf b"
    let ?c0 = "([- infty, - infty, - infty], [infty, infty, infty])"
    let ?ca = "fold (spec_accumulate infty h ?bb) ?cs ?c0"
    have r0: "recalc_minmax infty this sf None True None = Some (Some ?bb, None)"
      by (simp add: recalc_minmax_def a)
    have al: "accum_loop infty h (trnode sf) ?bb (clippers sf) 0 ?c0 = Some ?ca"
      using accum_loop_spec [OF assms(2), of infty "trnode sf" ?bb 0 ?c0] by simp
    obtain b' c' where r1: "recalc_minmax infty this sf (Some ?ca) True (Some ?ca)
        = Some (Some b', Some c')"
      using recalc_apply by blast
    have "update_minmax opts infty h this =
        Some (h(this \<mapsto> sf\<lparr>srf_changed := ?ch, bbox := b', cbox := c'\<rparr>))"
      using False ne assms(1)
      by (simp add: update_minmax_def Let_def cl recalc_ignores r0 al r1)
    moreover have "spec_update_minmax True opts infty h this sf =
        sf\<lparr>srf_changed := ?ch, bbox := b', cbox := c'\<rparr>"
      using False ne by (simp add: spec_update_minmax_def Let_def a r1)
    ultimately show ?thesis by simp
  qed
qed

lemma node_ex_direct:
  "direct_minmax infty this (surface_node_ex tg sh lo hi chg cl) ([a, b, c], [d, e, f])
     = ([a, b, c], [d, e, f])"
  by (simp add: direct_minmax_def surface_node_ex_def pps_of_def RT_X_def RT_Y_def RT_Z_def
      RT_I_def RT_J_def RT_K_def numeral_2_eq_2 Let_def)

lemma node_ex_invert:
  "invert_minmax infty this (surface_node_ex tg sh lo hi chg cl) ([a, b, c], [d, e, f])
     = ([a, b, c], [d, e, f])"
  by (simp add: invert_minmax_def surface_node_ex_def pps_of_def RT_X_def RT_Y_def RT_Z_def
      RT_I_def RT_J_def RT_K_def Let_def)

lemma node_ex_sel:
  "shape (surface_node_ex tg sh lo hi chg cl) = sh"
  "srf_rec (surface_node_ex tg sh lo hi chg cl) = surface_ex lo hi None"
  "tag (surface_node_ex tg sh lo hi chg cl) = tg"
  "trnode (surface_node_ex tg sh lo hi chg cl) = None"
  "obj_changed (surface_node_ex tg sh lo hi chg cl) = chg"
  "clippers (surface_node_ex tg sh lo hi chg cl) = cl"
  "bbox (surface_node_ex tg sh lo hi chg cl) = ([0, 0, 0], [0, 0, 0])"
  by (simp_all add: surface_node_ex_def)

lemma cylinder_ex_baseline:
  "adjust_minmax 1000 (Cylinder 1) (surface_ex [-1000, -1000, -2] [1000, 1000, 2] None)
     [-1000, -1000, -2] [1000, 1000, 2] True False = (Some ([-1, -1, -2], [1, 1, 2]), None)"
  by (simp add: adjust_minmax_def Cylinder_adjust_minmax_def Surface_adjust_minmax_def
      bbox_clamp_def RT_I_def RT_J_def RT_K_def)

lemma sphere_ex_adjust:
  "adjust_minmax 1000 (Sphere 1) sr [-1, -1, -2] [1, 1, 2] True False
     = (Some ([-1, -1, -1], [1, 1, 1]), None)"
proof -
  have s: "k < 3 \<Longrightarrow> sphere_section 1 [-1, -1, -2] [1, 1, 2] k = 1" for k
    by (drule less3) (auto simp: sphere_section_def sphere_top_def)
  have e: "eff_radius 1 [-1, -1, -2] [1, 1, 2] i = 1" for i
    by (simp add: eff_radius_def s)
  show ?thesis
    unfolding adjust_minmax_def shape.case Sphere_adjust_minmax_def Surface_adjust_minmax_def
      sphere_radii_eq Let_def bbox_clamp_def e
    by (simp add: RT_I_def RT_J_def RT_K_def)
qed

lemma sphere_ex_accum:
  "spec_accumulate 1000 (boxes_heap_ex chg) ([-1, -1, -2], [1, 1, 2]) clip_elem_ex
     ([-1000, -1000, -1000], [1000, 1000, 1000]) = ([-1000, -1000, -1], [1000, 1000, 1])"
  by (simp add: spec_accumulate_def clipper_object_def clip_elem_ex_def boxes_heap_ex_def
      sphere_ex_def recalc_minmax_def node_ex_invert node_ex_sel sphere_ex_adjust
      accum_mark_def node_ex_direct vec3_max_def vec3_min_def RT_I_def RT_J_def RT_K_def)

lemma cylinder_ex_apply:
  "recalc_minmax 1000 this (cylinder_ex chg) (Some ([-1000, -1000, -1], [1000, 1000, 1])) True
      (Some ([-1000, -1000, -1], [1000, 1000, 1]))
     = Some (Some ([-1, -1, -1], [1, 1, 1]), Some ([-1000, -1000, -1000], [1000, 1000, 1000]))"
  by (simp add: recalc_minmax_def cylinder_ex_def node_ex_invert node_ex_sel node_ex_direct
      vec3_max_def vec3_min_def surface_ex_def adjust_minmax_def Cylinder_adjust_minmax_def
      Surface_adjust_minmax_def bbox_clamp_def cbox_cut_def RT_I_def RT_J_def RT_K_def)

lemma contributors_ex:
  "spec_contributors (boxes_heap_ex chg) None 0 [clip_elem_ex] = [clip_elem_ex]"
  by (simp add: spec_contributors_def spec_contributor_def clip_elem_ex_def boxes_heap_ex_def
      sphere_ex_def node_ex_sel RT_IS_SURFACE_def markers_before_def)

lemma spec_update_ex:
  "gate \<longrightarrow> chg \<noteq> {} \<Longrightarrow>
   spec_update_minmax gate {OPTS_ADJUST} 1000 (boxes_heap_ex chg) 1 (cylinder_ex chg) =
     (cylinder_ex chg)\<lparr>srf_changed := chg, bbox := ([-1, -1, -1], [1, 1, 1]),
        cbox := ([-1000, -1000, -1000], [1000, 1000, 1000])\<rparr>"
proof -
  assume g: "gate \<longrightarrow> chg \<noteq> {}"
  have ch: "obj_changed (clipper_object (boxes_heap_ex chg) clip_elem_ex) = {}" for chg
    by (simp add: clipper_object_def clip_elem_ex_def boxes_heap_ex_def sphere_ex_def node_ex_sel)
  have sel: "clippers (cylinder_ex chg) = [clip_elem_ex]" "trnode (cylinder_ex chg) = None"
    "obj_changed (cylinder_ex chg) = chg" "shape (cylinder_ex chg) = Cylinder 1"
    "srf_rec (cylinder_ex chg) = surface_ex [-1000, -1000, -2] [1000, 1000, 2] None"
    by (simp_all add: cylinder_ex_def node_ex_sel)
  have dr: "direct_minmax 1000 this (cylinder_ex chg) ([-1, -1, -2], [1, 1, 2])
      = ([-1, -1, -2], [1, 1, 2])" for this
    by (simp add: cylinder_ex_def node_ex_direct)
  have sm: "srf_min (surface_ex [-1000, -1000, -2] [1000, 1000, 2] None) = [-1000, -1000, -2]"
    "srf_max (surface_ex [-1000, -1000, -2] [1000, 1000, 2] None) = [1000, 1000, 2]"
    by (simp_all add: surface_ex_def)
  show ?thesis
    using g
    unfolding spec_update_minmax_def sel contributors_ex sm cylinder_ex_baseline
    by (auto simp: ch dr sphere_ex_accum cylinder_ex_apply)
qed

text \<open>The changed cylinder clipped by the outside of the sphere: its bounding box
  shrinks to the extent of the sphere.\<close>

theorem update_minmax_paths_witness:
  "update_minmax {OPTS_ADJUST} 1000 (boxes_heap_ex {FLAG_ARR}) 1 =
     Some ((boxes_heap_ex {FLAG_ARR})(1 \<mapsto>
       (cylinder_ex {FLAG_ARR})\<lparr>srf_changed := {FLAG_ARR}, bbox := ([-1, -1, -1], [1, 1, 1]),
          cbox := ([-1000, -1000, -1000], [1000, 1000, 1000])\<rparr>))"
proof -
  have h: "boxes_heap_ex {FLAG_ARR} 1 = Some (cylinder_ex {FLAG_ARR})"
    by (simp add: boxes_heap_ex_def)
  have w: "clippers_wf (boxes_heap_ex {FLAG_ARR}) (clippers (cylinder_ex {FLAG_ARR}))"
    by (simp add: clippers_wf_def cylinder_ex_def node_ex_sel clip_elem_ex_def boxes_heap_ex_def
        sphere_ex_def RT_IS_SURFACE_def)
  have s: "spec_update_minmax True {OPTS_ADJUST} 1000 (boxes_heap_ex {FLAG_ARR}) 1
      (cylinder_ex {FLAG_ARR}) =
     (cylinder_ex {FLAG_ARR})\<lparr>srf_changed := {FLAG_ARR}, bbox := ([-1, -1, -1], [1, 1, 1]),
        cbox := ([-1000, -1000, -1000], [1000, 1000, 1000])\<rparr>"
    by (rule spec_update_ex) simp
  show ?thesis
    using update_minmax_paths [OF h w, of "{OPTS_ADJUST}" 1000] unfolding s .
qed

text \<open>With nothing changed the code leaves the (still zero) bounding box alone, where
  the second path taken unconditionally computes \<open>[-1, 1]^3\<close>.\<close>

theorem update_minmax_unchanged_counterexample:
  "bbox_code_ex {} = Some ([0, 0, 0], [0, 0, 0])
   \<and> bbox_spec_ex False {} = ([-1, -1, -1], [1, 1, 1])"
proof -
  have sel: "clippers (cylinder_ex {}) = [clip_elem_ex]" "trnode (cylinder_ex {}) = None"
    "obj_changed (cylinder_ex {}) = {}" "bbox (cylinder_ex {}) = ([0, 0, 0], [0, 0, 0])"
    by (simp_all add: cylinder_ex_def node_ex_sel)
  have "update_minmax {OPTS_ADJUST} 1000 (boxes_heap_ex {}) 1
      = Some ((boxes_heap_ex {})(1 \<mapsto> (cylinder_ex {})\<lparr>srf_changed := {}\<rparr>))"
    by (simp add: update_minmax_def boxes_heap_ex_def sel Let_def clip_elem_ex_def
        clipper_skipped_def sphere_ex_def node_ex_sel)
  then have a: "bbox_code_ex {} = Some ([0, 0, 0], [0, 0, 0])"
    by (simp add: bbox_code_ex_def sel)
  have b: "bbox_spec_ex False {} = ([-1, -1, -1], [1, 1, 1])"
    unfolding bbox_spec_ex_def by (subst spec_update_ex) simp_all
  from a b show ?thesis by simp
qed

section \<open>Properties of the custom clipper lists\<close>

lemma search_marker_None:
  "(search_marker tn acc es = None) = (Some tn \<notin> temp ` set (visible acc es))"
  by (induction es arbitrary: acc) (auto simp: Let_def)

lemma search_marker_Some:
  "search_marker tn acc es = Some i
     \<Longrightarrow> i < length es \<and> temp (es ! i) = Some tn \<and> es ! i \<in> set (visible acc es)"
proof (induction es arbitrary: acc i)
  case Nil
  then show ?case by simp
next
  case (Cons x xs)
  then show ?case
    by (auto simp: Let_def split: if_splits)
qed

lemma visible_insert:
  assumes "temp e \<noteq> None" and "\<not> array_elem h e"
  shows "filter (array_elem h) (visible acc (xs @ e # ys))
           = filter (array_elem h) (visible acc (xs @ ys))"
  using assms by (induction xs arbitrary: acc) (auto simp: Let_def)

lemma single_markers_visible:
  "single_markers h es \<Longrightarrow> distinct (map temp (filter (array_elem h) (visible acc es)))"
proof (induction es arbitrary: acc)
  case Nil
  then show ?case by simp
next
  case (Cons x xs)
  show ?case
  proof (cases "temp x \<noteq> None \<and> acc = 0")
    case True
    then show ?thesis using Cons.prems by simp
  next
    case False
    then show ?thesis using Cons.IH Cons.prems by (auto simp: Let_def)
  qed
qed

lemma single_markers_insert:
  assumes "temp e \<noteq> None" and "\<not> array_elem h e"
  shows "single_markers h (xs @ e # ys) = single_markers h (xs @ ys)"
proof (induction xs)
  case Nil
  have "single_markers h ys \<Longrightarrow> distinct (map temp (filter (array_elem h) (visible 0 ys)))"
    by (rule single_markers_visible)
  then show ?case using assms by auto
next
  case (Cons x xs)
  have "filter (array_elem h) (visible 0 (x # xs @ e # ys))
          = filter (array_elem h) (visible 0 (x # xs @ ys))"
    using visible_insert [OF assms, of 0 "x # xs" ys] by simp
  then show ?case using Cons by simp
qed

lemma single_markers_marker:
  assumes "temp e = None" and "single_markers h es"
  shows "single_markers h (e # es)"
  using assms single_markers_visible [OF assms(2)] by (simp add: Let_def)

lemma single_markers_new:
  assumes "single_markers h es" and "temp e \<noteq> None" and "\<not> array_elem h e"
    and "temp m = Some tn" and "Some tn \<notin> temp ` set (visible 0 es)"
  shows "single_markers h (m # e # es)"
proof -
  have d: "distinct (map temp (filter (array_elem h) (visible 0 es)))"
    using assms(1) by (rule single_markers_visible)
  have "Some tn \<notin> temp ` set (filter (array_elem h) (visible 0 es))"
    using assms(5) by auto
  then show ?thesis using assms d by auto
qed


lemma surface_not_array_elem:
  assumes "h a = Some sf" and "RT_IS_SURFACE (tag sf)" and "temp e = Some a"
  shows "\<not> array_elem h e"
  using assms by (auto simp: array_elem_def RT_IS_SURFACE_def RT_IS_ARRAY_def)

lemma add_surface_elem_ptr:
  assumes "trnode sf = Some tn" and "tn \<noteq> a"
  shows "ptr (add_surface_elem a sf rel st) =
           (let elm = \<lparr>addr = next_free st, data = rel, simd = Some a, temp = Some a\<rparr>
            in case search_marker tn 0 (ptr st) of
                 None \<Rightarrow> \<lparr>addr = Suc (next_free st), data = int (next_free st),
                           simd = Some tn, temp = Some tn\<rparr> # elm # ptr st
               | Some i \<Rightarrow> take (Suc i) (ptr st) @ elm # drop (Suc i) (ptr st))"
  using assms
  by (simp add: add_surface_elem_def new_elem_def insert_head_def Let_def
        split: option.splits)

lemma add_surface_elem_plain:
  assumes "trnode sf = None \<or> trnode sf = Some a"
  shows "ptr (add_surface_elem a sf rel st) =
           \<lparr>addr = next_free st, data = rel, simd = Some a, temp = Some a\<rparr> # ptr st"
  using assms
  by (auto simp: add_surface_elem_def new_elem_def insert_head_def Let_def)

lemma single_markers_plain:
  assumes "single_markers h es" and "temp e \<noteq> None" and "\<not> array_elem h e"
  shows "single_markers h (e # es)"
  using single_markers_insert [OF assms(2,3), of "[]" es] assms(1) by simp

lemma add_surface_elem_single:
  assumes "h a = Some sf" and "RT_IS_SURFACE (tag sf)" and "single_markers h (ptr st)"
    and "trnode sf = Some tn" and "tn \<noteq> a"
  shows "single_markers h (ptr (add_surface_elem a sf rel st))"
proof -
  let ?elm = "\<lparr>addr = next_free st, data = rel, simd = Some a, temp = Some a\<rparr>"
  have ne: "\<not> array_elem h ?elm"
    using surface_not_array_elem [of h a sf ?elm] assms(1,2) by simp
  have tp: "temp ?elm \<noteq> None" by simp
  show ?thesis
  proof (cases "search_marker tn 0 (ptr st)")
    case None
    then have "Some tn \<notin> temp ` set (visible 0 (ptr st))"
      by (simp add: search_marker_None)
    then have "single_markers h (\<lparr>addr = Suc (next_free st), data = int (next_free st),
                 simd = Some tn, temp = Some tn\<rparr> # ?elm # ptr st)"
      by (intro single_markers_new [OF assms(3) tp ne]) simp_all
    then show ?thesis
      using None by (simp add: add_surface_elem_ptr [OF assms(4,5)])
  next
    case (Some i)
    have "single_markers h (take (Suc i) (ptr st) @ ?elm # drop (Suc i) (ptr st))"
      using assms(3) by (simp add: single_markers_insert [OF tp ne])
    then show ?thesis
      using Some by (simp add: add_surface_elem_ptr [OF assms(4,5)])
  qed
qed

lemma add_surface_elem_single_plain:
  assumes "h a = Some sf" and "RT_IS_SURFACE (tag sf)" and "single_markers h (ptr st)"
    and "trnode sf = None \<or> trnode sf = Some a"
  shows "single_markers h (ptr (add_surface_elem a sf rel st))"
proof -
  let ?elm = "\<lparr>addr = next_free st, data = rel, simd = Some a, temp = Some a\<rparr>"
  have ne: "\<not> array_elem h ?elm"
    using surface_not_array_elem [of h a sf ?elm] assms(1,2) by simp
  have "single_markers h (?elm # ptr st)"
    by (rule single_markers_plain [OF assms(3) _ ne]) simp
  then show ?thesis by (simp add: add_surface_elem_plain [OF assms(4)])
qed

lemma add_relation_single:
  assumes "h a = Some sf" and "RT_IS_SURFACE (tag sf)" and "temp l = Some a"
  shows "add_relation fuel h st [l] = Some (add_surface_elem a sf (data l) st)"
  using assms by (auto simp: RT_IS_SURFACE_def RT_IS_ARRAY_def)

subsection \<open>The trnode element of a clipper\<close>

text \<open>Claim C4, as the code has it. For a template element of a clipper surface \<open>a\<close> whose
  trnode \<open>tn\<close> is another object, \<open>rt_Surface::add_relation\<close> returns with any fuel. When
  an element of \<open>tn\<close> is among the elements the search looks at (the current accumulation
  segment, or the elements outside all segments), the new clipper element is put directly
  behind one of these and no trnode element is made; otherwise a new trnode element
  of \<open>tn\<close>, whose \<open>data\<close> is the address of the clipper element, is put in front of the
  clipper element at the head of the list. Either way the list keeps single markers: from
  every position on, the trnode elements the search looks at point to different
  arrays.\<close>

theorem add_relation_trnode_marker:
  assumes "h a = Some sf" and "RT_IS_SURFACE (tag sf)" and "temp l = Some a"
    and "trnode sf = Some tn" and "tn \<noteq> a" and "single_markers h (ptr st)"
  shows "\<exists>st'. add_relation fuel h st [l] = Some st' \<and>
           (let elm = \<lparr>addr = next_free st, data = data l, simd = Some a, temp = Some a\<rparr>
            in (if Some tn \<in> temp ` set (visible 0 (ptr st))
                then \<exists>i < length (ptr st). temp (ptr st ! i) = Some tn
                       \<and> ptr st ! i \<in> set (visible 0 (ptr st))
                       \<and> ptr st' = take (Suc i) (ptr st) @ elm # drop (Suc i) (ptr st)
                else ptr st' = \<lparr>addr = Suc (next_free st), data = int (next_free st),
                                simd = Some tn, temp = Some tn\<rparr> # elm # ptr st)
               \<and> single_markers h (ptr st'))"
proof -
  let ?st = "add_surface_elem a sf (data l) st"
  have r: "add_relation fuel h st [l] = Some ?st"
    using add_relation_single [of h a sf l fuel st] assms(1,2,3) by simp
  have s: "single_markers h (ptr ?st)"
    by (rule add_surface_elem_single [OF assms(1,2,6,4,5)])
  show ?thesis
  proof (cases "search_marker tn 0 (ptr st)")
    case None
    then have "Some tn \<notin> temp ` set (visible 0 (ptr st))"
      by (simp add: search_marker_None)
    then show ?thesis
      using r s None by (simp add: add_surface_elem_ptr [OF assms(4,5)] Let_def)
  next
    case (Some i)
    then have v: "Some tn \<in> temp ` set (visible 0 (ptr st))"
      using search_marker_None [of tn 0 "ptr st"] by simp
    have "i < length (ptr st) \<and> temp (ptr st ! i) = Some tn
        \<and> ptr st ! i \<in> set (visible 0 (ptr st))"
      using Some by (rule search_marker_Some)
    then have "\<exists>i < length (ptr st). temp (ptr st ! i) = Some tn
        \<and> ptr st ! i \<in> set (visible 0 (ptr st))
        \<and> ptr ?st = take (Suc i) (ptr st)
            @ \<lparr>addr = next_free st, data = data l, simd = Some a, temp = Some a\<rparr>
            # drop (Suc i) (ptr st)"
      using Some by (auto simp: add_surface_elem_ptr [OF assms(4,5)] Let_def)
    then show ?thesis
      using r s v by (simp add: Let_def)
  qed
qed


text \<open>Single markers are kept by every call of \<open>add_relation\<close> that returns, so they
  hold of every list built from the empty one.\<close>

lemma add_surface_elem_keeps:
  assumes "h a = Some sf" and "RT_IS_SURFACE (tag sf)" and "single_markers h (ptr st)"
  shows "single_markers h (ptr (add_surface_elem a sf rel st))"
proof (cases "trnode sf = None \<or> trnode sf = Some a")
  case True
  then show ?thesis by (rule add_surface_elem_single_plain [OF assms])
next
  case False
  then obtain tn where "trnode sf = Some tn" and "tn \<noteq> a" by auto
  then show ?thesis by (rule add_surface_elem_single [OF assms])
qed

lemma add_relation_keeps:
  "single_markers h (ptr st) \<Longrightarrow> add_relation fuel h st lst = Some st'
     \<Longrightarrow> single_markers h (ptr st')"
  "single_markers h (ptr st) \<Longrightarrow> add_children f h st rel cs = Some st'
     \<Longrightarrow> single_markers h (ptr st')"
proof (induction fuel h st lst and f h st rel cs arbitrary: st' and st'
        rule: add_relation_add_children.induct)
  case (1 fuel h st)
  then show ?case by simp
next
  case (2 fuel h st l lst)
  show ?case
  proof (cases "temp l")
    case None
    let ?e = "\<lparr>addr = next_free st, data = data l, simd = None, temp = None\<rparr>"
    let ?st1 = "st\<lparr>next_free := Suc (next_free st)\<rparr>"
    have n: "new_elem st (data l) None None = (?e, ?st1)" by (simp add: new_elem_def)
    have "single_markers h (?e # ptr st)"
      by (rule single_markers_marker [OF _ "2.prems"(1)]) simp
    then have s1: "single_markers h (ptr (insert_head ?e ?st1))"
      by (simp add: insert_head_def)
    have "add_relation fuel h (insert_head ?e ?st1) lst = Some st'"
      using "2.prems"(2) None by (simp add: n)
    then show ?thesis
      by (rule "2.IH"(1) [OF None n [symmetric] refl s1])
  next
    case (Some a)
    show ?thesis
    proof (cases "h a")
      case None
      then show ?thesis using "2.prems"(2) Some by simp
    next
      case ob: (Some ob)
      show ?thesis
      proof (cases "RT_IS_ARRAY (tag ob)")
        case True
        show ?thesis
        proof (cases fuel)
          case 0
          then show ?thesis using "2.prems"(2) Some ob True by simp
        next
          case (Suc f)
          show ?thesis
          proof (cases "add_children f h st (data l) (obj_arr ob)")
            case None
            then show ?thesis using "2.prems"(2) Some ob True Suc by simp
          next
            case st1: (Some st1)
            have s1: "single_markers h (ptr st1)"
              by (rule "2.IH"(2) [OF Some ob True Suc "2.prems"(1) st1])
            have "add_relation fuel h st1 lst = Some st'"
              using "2.prems"(2) Some ob True Suc st1 by simp
            then show ?thesis
              by (rule "2.IH"(3) [OF Some ob True Suc st1 s1])
          qed
        qed
      next
        case False
        show ?thesis
        proof (cases "RT_IS_SURFACE (tag ob)")
          case True
          have s1: "single_markers h (ptr (add_surface_elem a ob (data l) st))"
            by (rule add_surface_elem_keeps [OF ob True "2.prems"(1)])
          have "add_relation fuel h (add_surface_elem a ob (data l) st) lst = Some st'"
            using "2.prems"(2) Some ob False True by simp
          then show ?thesis
            by (rule "2.IH"(4) [OF Some ob False True s1])
        next
          case nsf: False
          have "add_relation fuel h st lst = Some st'"
            using "2.prems"(2) Some ob False nsf by simp
          then show ?thesis
            by (rule "2.IH"(5) [OF Some ob False nsf "2.prems"(1)])
        qed
      qed
    qed
  qed
next
  case (3 f h st rel)
  then show ?case by simp
next
  case (4 f h st rel c cs)
  let ?e = "\<lparr>addr = next_free st, data = rel, simd = None, temp = Some c\<rparr>"
  let ?st1 = "st\<lparr>next_free := Suc (next_free st)\<rparr>"
  have n: "new_elem st rel None (Some c) = (?e, ?st1)" by (simp add: new_elem_def)
  show ?case
  proof (cases "add_relation f h ?st1 [?e]")
    case None
    then show ?thesis using "4.prems"(2) by (simp add: n)
  next
    case (Some st2)
    have s0: "single_markers h (ptr ?st1)" using "4.prems"(1) by simp
    have s2: "single_markers h (ptr st2)"
      by (rule "4.IH"(1) [OF n [symmetric] refl s0 Some])
    have "add_children f h st2 rel cs = Some st'"
      using "4.prems"(2) Some by (simp add: n)
    then show ?thesis
      by (rule "4.IH"(2) [OF n [symmetric] refl Some s2])
  qed
qed


lemma clip_heap_ex_sphere:
  assumes "a = 6 \<or> a = 7"
  shows "clip_heap_ex a
           = Some ((surface_node_ex TAG_SPHERE (Sphere 1) [] [] {} [])\<lparr>trnode := Some 5\<rparr>)"
  using assms by (auto simp: clip_heap_ex_def)

lemma clip_heap_ex_array:
  "clip_heap_ex 5 = Some ((surface_node_ex TAG_ARRAY Plane [] [] {} [])\<lparr>obj_arr := [6, 7]\<rparr>)"
  by (simp add: clip_heap_ex_def)

lemma clip_ex_elems:
  "array_elem clip_heap_ex (marker_ex n e)"
  "a = 6 \<or> a = 7 \<Longrightarrow> \<not> array_elem clip_heap_ex (clipper_ex k a)"
  "\<not> array_elem clip_heap_ex (accum_ex n d)"
  by (auto simp: array_elem_def marker_ex_def clipper_ex_def accum_ex_def clip_heap_ex_def
        surface_node_ex_def RT_IS_ARRAY_def)

lemma clip_ex_temp:
  "temp (marker_ex n e) = Some 5" "temp (clipper_ex k a) = Some a" "temp (accum_ex n d) = None"
  "data (accum_ex n d) = d"
  by (simp_all add: marker_ex_def clipper_ex_def accum_ex_def)

lemma clip_state_ex_single: "single_markers clip_heap_ex (ptr clip_state_ex)"
  by (simp add: clip_state_ex_def clip_ex_elems clip_ex_temp)

text \<open>The sphere at 7 is put behind the trnode element that the sphere at 6 made.\<close>

theorem add_relation_trnode_marker_witness:
  "single_markers clip_heap_ex (ptr clip_state_ex)
   \<and> (\<exists>st'. add_relation 1 clip_heap_ex clip_state_ex [template_ex RT_REL_MINUS_OUTER (Some 7)]
               = Some st'
            \<and> ptr st' = [marker_ex 101 100, clipper_ex 102 7, clipper_ex 100 6]
            \<and> single_markers clip_heap_ex (ptr st'))"
proof -
  let ?sf = "(surface_node_ex TAG_SPHERE (Sphere 1) [] [] {} [])\<lparr>trnode := Some 5\<rparr>"
  let ?l = "template_ex RT_REL_MINUS_OUTER (Some 7)"
  have h: "clip_heap_ex 7 = Some ?sf" by (simp add: clip_heap_ex_sphere)
  have sf: "RT_IS_SURFACE (tag ?sf)" by (simp add: surface_node_ex_def RT_IS_SURFACE_def)
  have tl: "temp ?l = Some 7" by (simp add: template_ex_def)
  have tn: "trnode ?sf = Some 5" by simp
  have ne: "(5::nat) \<noteq> 7" by simp
  have v: "Some 5 \<in> temp ` set (visible 0 (ptr clip_state_ex))"
    by (simp add: clip_state_ex_def clip_ex_temp)
  from add_relation_trnode_marker [of clip_heap_ex 7 ?sf ?l 5 clip_state_ex 1,
      OF h sf tl tn ne clip_state_ex_single]
  obtain st' i where r: "add_relation 1 clip_heap_ex clip_state_ex [?l] = Some st'"
    and i: "i < length (ptr clip_state_ex)" "temp (ptr clip_state_ex ! i) = Some 5"
    and p: "ptr st' = take (Suc i) (ptr clip_state_ex)
              @ \<lparr>addr = next_free clip_state_ex, data = data ?l, simd = Some 7, temp = Some 7\<rparr>
              # drop (Suc i) (ptr clip_state_ex)"
    and s: "single_markers clip_heap_ex (ptr st')"
    using v by (auto simp: Let_def)
  have "i = 0 \<or> i = 1" using i(1) by (auto simp: clip_state_ex_def)
  then have "i = 0" using i(2) by (auto simp: clip_state_ex_def clip_ex_temp)
  then have "ptr st' = [marker_ex 101 100, clipper_ex 102 7, clipper_ex 100 6]"
    using p by (simp add: clip_state_ex_def clipper_ex_def template_ex_def)
  then show ?thesis using r s clip_state_ex_single by simp
qed

text \<open>The sphere at 6 is added outside any accumulation segment and the sphere at 7
  within a segment: the list ends up with two trnode elements of the array at 5, one in
  each region.\<close>

theorem two_markers_counterexample:
  "two_segments_ex
     = Some \<lparr>ptr = [accum_ex 105 RT_ACCUM_ENTER, marker_ex 104 103, clipper_ex 103 7,
                    accum_ex 102 RT_ACCUM_LEAVE, marker_ex 101 100, clipper_ex 100 6],
             next_free = 106\<rparr>
   \<and> markers_for 5 [accum_ex 105 RT_ACCUM_ENTER, marker_ex 104 103, clipper_ex 103 7,
                     accum_ex 102 RT_ACCUM_LEAVE, marker_ex 101 100, clipper_ex 100 6] = 2"
  by (simp add: two_segments_ex_def clip_heap_ex_def surface_node_ex_def template_ex_def
        RT_IS_ARRAY_def RT_IS_SURFACE_def add_surface_elem_def new_elem_def insert_head_def
        RT_ACCUM_ENTER_def RT_ACCUM_LEAVE_def RT_REL_MINUS_OUTER_def markers_for_def
        marker_ex_def clipper_ex_def accum_ex_def Let_def)

end
